theory Spec2Isabelle
  imports Complex_Main
begin

section \<open>Arrays\<close>

text \<open>
  The regressor of \<^verbatim>\<open>regressor.py\<close> works on numpy arrays of rank 0, 1 and 2.
  A rank-2 array is a list of rows; an array of any of the three ranks is an
  \<open>ndarray\<close>. Entries are of an arbitrary type \<open>'a\<close> with the arithmetic the code
  uses (\<open>0\<close>, \<open>1\<close>, \<open>+\<close>, \<open>-\<close>, \<open>*\<close>); rounding of IEEE doubles is not modelled, and
  the theorems that need algebraic laws ask for a ring. A rank-2 array without
  rows is taken to have no columns either.
\<close>

type_synonym 'a mat = "'a list list"

datatype 'a ndarray = A0 'a | A1 "'a list" | A2 "'a mat"

definition nrows :: "'a mat \<Rightarrow> nat" where
  "nrows m = length m"

definition ncols :: "'a mat \<Rightarrow> nat" where
  "ncols m = (case m of [] \<Rightarrow> 0 | r # _ \<Rightarrow> length r)"

definition is_mat :: "nat \<Rightarrow> nat \<Rightarrow> 'a mat \<Rightarrow> bool" where
  \<comment> \<open>a rectangular array of shape \<open>(r, c)\<close>\<close>
  "is_mat r c m = (length m = r \<and> list_all (\<lambda>row. length row = c) m)"

text \<open>\<^verbatim>\<open>np.atleast_2d\<close>: a scalar becomes \<open>(1, 1)\<close>, a flat array of \<open>n\<close> entries
  becomes the single row \<open>(1, n)\<close>, a rank-2 array is returned as it is.\<close>

fun atleast_2d :: "'a ndarray \<Rightarrow> 'a mat" where
  "atleast_2d (A0 a) = [[a]]"
| "atleast_2d (A1 xs) = [xs]"
| "atleast_2d (A2 m) = m"

fun nd_map :: "('a \<Rightarrow> 'b) \<Rightarrow> 'a ndarray \<Rightarrow> 'b ndarray" where
  "nd_map f (A0 a) = A0 (f a)"
| "nd_map f (A1 xs) = A1 (map f xs)"
| "nd_map f (A2 m) = A2 (map (map f) m)"

definition np_zeros :: "nat \<Rightarrow> 'a::zero list" where
  "np_zeros n = replicate n 0"

definition np_eye :: "nat \<Rightarrow> 'a::{zero,one} mat" where
  "np_eye n = map (\<lambda>i. map (\<lambda>j. if i = j then 1 else 0) [0..<n]) [0..<n]"

definition diag_of_vec :: "'a::zero list \<Rightarrow> 'a mat" where
  \<comment> \<open>\<^verbatim>\<open>np.diag\<close> of a flat array\<close>
  "diag_of_vec v =
     map (\<lambda>i. map (\<lambda>j. if i = j then v ! i else 0) [0..<length v]) [0..<length v]"

definition diag_of_mat :: "'a mat \<Rightarrow> 'a list" where
  \<comment> \<open>\<^verbatim>\<open>np.diag\<close> of a rank-2 array\<close>
  "diag_of_mat m = map (\<lambda>i. m ! i ! i) [0..<min (nrows m) (ncols m)]"

definition np_T :: "'a mat \<Rightarrow> 'a mat" where
  "np_T m = map (\<lambda>j. map (\<lambda>row. row ! j) m) [0..<ncols m]"

definition squeeze :: "'a mat \<Rightarrow> 'a ndarray" where
  "squeeze m =
     (if nrows m = 1 \<and> ncols m = 1 then A0 (m ! 0 ! 0)
      else if nrows m = 1 then A1 (m ! 0)
      else if ncols m = 1 then A1 (map (\<lambda>row. row ! 0) m)
      else A2 m)"

definition scale :: "'a::times \<Rightarrow> 'a mat \<Rightarrow> 'a mat" where
  \<comment> \<open>a scalar times an array\<close>
  "scale a m = map (map (\<lambda>v. a * v)) m"

section \<open>Errors\<close>

text \<open>
  The regressor raises \<^verbatim>\<open>ValueError('Need to fit the process to some training data first!')\<close>
  itself; numpy raises a \<^verbatim>\<open>ValueError\<close> of its own for operands whose shapes do not fit and a
  \<^verbatim>\<open>TypeError\<close> for an operand that is \<^verbatim>\<open>None\<close>; whatever the kernel, the matrix inversion
  or the sampler raise is of the type \<open>'e\<close>.
\<close>

datatype 'e error = ValueError_not_fit | ValueError_shapes | TypeError_none | Library 'e

definition and_then :: "'x + 'a \<Rightarrow> ('a \<Rightarrow> 'x + 'b) \<Rightarrow> 'x + 'b" where
  "and_then r f = (case r of Inl e \<Rightarrow> Inl e | Inr v \<Rightarrow> f v)"

definition lib :: "'e + 'a \<Rightarrow> 'e error + 'a" where
  "lib r = (case r of Inl e \<Rightarrow> Inl (Library e) | Inr v \<Rightarrow> Inr v)"

definition not_none :: "'a option \<Rightarrow> 'e error + 'a" where
  "not_none v = (case v of None \<Rightarrow> Inl TypeError_none | Some a \<Rightarrow> Inr a)"

section \<open>Broadcasting and the matrix product\<close>

definition bdim :: "nat \<Rightarrow> nat \<Rightarrow> nat option" where
  \<comment> \<open>the common length of one axis, an axis of length 1 being stretched\<close>
  "bdim a b = (if a = b then Some a else if a = 1 then Some b else if b = 1 then Some a else None)"

definition bget :: "'a mat \<Rightarrow> nat \<Rightarrow> nat \<Rightarrow> 'a" where
  "bget m i j = (m ! (if nrows m = 1 then 0 else i)) ! (if ncols m = 1 then 0 else j)"

definition broadcast :: "('a \<Rightarrow> 'a \<Rightarrow> 'a) \<Rightarrow> 'a mat \<Rightarrow> 'a mat \<Rightarrow> 'e error + 'a mat" where
  "broadcast f a b =
     (case (bdim (nrows a) (nrows b), bdim (ncols a) (ncols b)) of
        (Some r, Some c) \<Rightarrow> Inr (map (\<lambda>i. map (\<lambda>j. f (bget a i j) (bget b i j)) [0..<c]) [0..<r])
      | _ \<Rightarrow> Inl ValueError_shapes)"

definition np_add :: "'a::plus mat \<Rightarrow> 'a mat \<Rightarrow> 'e error + 'a mat" where
  "np_add = broadcast (+)"

definition np_sub :: "'a::minus mat \<Rightarrow> 'a mat \<Rightarrow> 'e error + 'a mat" where
  "np_sub = broadcast (-)"

definition np_mul :: "'a::times mat \<Rightarrow> 'a mat \<Rightarrow> 'e error + 'a mat" where
  "np_mul = broadcast (*)"

definition inner :: "'a::{zero,plus,times} list \<Rightarrow> 'a list \<Rightarrow> 'a" where
  "inner u v = foldr (+) (map2 (*) u v) 0"

definition column :: "'a mat \<Rightarrow> nat \<Rightarrow> 'a list" where
  "column m j = map (\<lambda>row. row ! j) m"

definition np_dot :: "'a::{zero,plus,times} mat \<Rightarrow> 'a mat \<Rightarrow> 'e error + 'a mat" where
  \<comment> \<open>\<^verbatim>\<open>np.dot\<close> of two rank-2 arrays\<close>
  "np_dot a b =
     (if ncols a \<noteq> nrows b then Inl ValueError_shapes
      else Inr (map (\<lambda>row. map (\<lambda>j. inner row (column b j)) [0..<ncols b]) a))"

section \<open>The regressor\<close>

text \<open>
  What the code takes from numpy without this theory looking inside: the matrix
  inversion, the sampler of a \<^verbatim>\<open>RandomState\<close> (which advances the state \<open>'r\<close> of that object),
  \<^verbatim>\<open>np.random.randn\<close> (which advances the state \<open>'g\<close> of numpy's process-wide generator),
  the square root, and the generator \<^verbatim>\<open>np.random.RandomState(seed=0)\<close>.
\<close>

record ('a, 'r, 'g, 'e) numpy =
  linalg_inv :: "'a mat \<Rightarrow> 'e + 'a mat"
  multivariate_normal :: "'r \<Rightarrow> 'a ndarray \<Rightarrow> 'a mat \<Rightarrow> int \<Rightarrow> 'r \<times> ('e + 'a mat)"
  randn :: "'g \<Rightarrow> nat \<Rightarrow> 'g \<times> 'a list"
  np_sqrt :: "'a \<Rightarrow> 'a"
  seed0 :: "'r"

text \<open>
  The fields of \<^verbatim>\<open>GaussianProcessRegressor\<close>. \<open>is_fit\<close>, \<open>k\<close>, \<open>k_inv\<close> and \<open>noise_level\<close>
  are \<^verbatim>\<open>_is_fit\<close>, \<^verbatim>\<open>_k\<close>, \<^verbatim>\<open>_k_inv\<close> and \<^verbatim>\<open>_noise_level\<close>; a field that is \<^verbatim>\<open>None\<close> is
  \<open>None\<close>. The kernel is the callable given to the constructor; it returns a rank-2
  array or raises. \<open>random_state\<close> is the state of the regressor's \<^verbatim>\<open>RandomState\<close> object.
  The field \<^verbatim>\<open>prior_mean\<close> always holds \<^verbatim>\<open>_zero_prior_mean\<close>, which is called directly.
  Every method returns the regressor after the call together with what the call
  returned or raised.
\<close>

record ('a, 'r, 'e) regressor =
  kernel :: "'a mat \<Rightarrow> 'a mat \<Rightarrow> 'e + 'a mat"
  random_state :: "'r"
  is_fit :: bool
  train_x :: "'a mat option"
  train_y :: "'a mat option"
  k :: "'a mat option"
  k_inv :: "'a mat option"
  noise_level :: "'a ndarray option"

text \<open>\<^verbatim>\<open>_zero_prior_mean\<close>: \<^verbatim>\<open>np.zeros(x.shape[0])\<close>.\<close>

definition zero_prior_mean :: "'a mat \<Rightarrow> 'b::zero list" where
  "zero_prior_mean x = np_zeros (nrows x)"

text \<open>\<^verbatim>\<open>__init__\<close>; without a random source the regressor makes its own with seed 0.\<close>

definition init ::
  "('a, 'r, 'g, 'e) numpy \<Rightarrow> ('a mat \<Rightarrow> 'a mat \<Rightarrow> 'e + 'a mat) \<Rightarrow> 'r option \<Rightarrow> ('a, 'r, 'e) regressor"
where
  "init np kern rs =
     \<lparr> kernel = kern,
       random_state = (case rs of Some r \<Rightarrow> r | None \<Rightarrow> seed0 np),
       is_fit = False, train_x = None, train_y = None, k = None, k_inv = None,
       noise_level = None \<rparr>"

text \<open>
  \<^verbatim>\<open>_sample\<close>: the sampler of the regressor's random source, transposed. The argument
  \<^verbatim>\<open>size\<close> is written \<open>size0\<close>. With \<^verbatim>\<open>check_valid='warn'\<close> a covariance that is not
  positive semidefinite gives a warning, which is not modelled, and no error.
\<close>

definition sample ::
  "('a, 'r, 'g, 'e) numpy \<Rightarrow> ('a, 'r, 'e) regressor \<Rightarrow> 'a ndarray \<Rightarrow> 'a mat \<Rightarrow> int
     \<Rightarrow> ('a, 'r, 'e) regressor \<times> ('e error + 'a mat)"
where
  "sample np s mean cov size0 =
     (case multivariate_normal np (random_state s) mean cov size0 of
        (r', res) \<Rightarrow> (s\<lparr>random_state := r'\<rparr>, and_then (lib res) (\<lambda>m. Inr (np_T m))))"

text \<open>\<^verbatim>\<open>sample_prior\<close>; the result is the samples, with the standard deviations when
  \<^verbatim>\<open>return_std\<close> is set.\<close>

definition sample_prior ::
  "('a::zero, 'r, 'g, 'e) numpy \<Rightarrow> ('a, 'r, 'e) regressor \<Rightarrow> 'a ndarray \<Rightarrow> int \<Rightarrow> bool
     \<Rightarrow> ('a, 'r, 'e) regressor \<times> ('e error + 'a mat \<times> 'a list option)"
where
  "sample_prior np s x size0 return_std =
     (let x2 = atleast_2d x in
      case lib (kernel s x2 x2) of
        Inl e \<Rightarrow> (s, Inl e)
      | Inr cov \<Rightarrow>
          (case sample np s (A1 (zero_prior_mean x2)) cov size0 of
             (s', Inl e) \<Rightarrow> (s', Inl e)
           | (s', Inr samples) \<Rightarrow>
               (s', Inr (samples,
                         if return_std then Some (map (np_sqrt np) (diag_of_mat cov)) else None))))"

definition regularize :: "'a::{zero,one,plus,times} mat \<Rightarrow> 'a ndarray \<Rightarrow> 'e error + 'a mat" where
  \<comment> \<open>\<^verbatim>\<open>k + noise_level ** 2 * np.eye(k.shape[0])\<close>\<close>
  "regularize km nl =
     and_then (np_mul (atleast_2d (nd_map (\<lambda>v. v * v) nl)) (np_eye (nrows km))) (np_add km)"

text \<open>
  \<^verbatim>\<open>fit\<close>. The three training fields are assigned first; the kernel and the
  regularisation may raise after that, \<^verbatim>\<open>_k\<close> is assigned next, the inversion may raise
  after that, and \<^verbatim>\<open>_k_inv\<close> and \<^verbatim>\<open>_is_fit\<close> are assigned last.
\<close>

definition fit ::
  "('a::{zero,one,plus,times}, 'r, 'g, 'e) numpy \<Rightarrow> ('a, 'r, 'e) regressor
     \<Rightarrow> 'a ndarray \<Rightarrow> 'a ndarray \<Rightarrow> 'a ndarray \<Rightarrow> ('a, 'r, 'e) regressor \<times> ('e error + unit)"
where
  "fit np s x y nl =
     (let x2 = atleast_2d x; y2 = atleast_2d y;
          s1 = s\<lparr>train_x := Some x2, train_y := Some y2, noise_level := Some nl\<rparr> in
      case and_then (lib (kernel s1 x2 x2)) (\<lambda>km. regularize km nl) of
        Inl e \<Rightarrow> (s1, Inl e)
      | Inr kt \<Rightarrow>
          (let s2 = s1\<lparr>k := Some kt\<rparr> in
           case lib (linalg_inv np kt) of
             Inl e \<Rightarrow> (s2, Inl e)
           | Inr ki \<Rightarrow> (s2\<lparr>k_inv := Some ki, is_fit := True\<rparr>, Inr ())))"

text \<open>
  \<^verbatim>\<open>posterior_moments\<close>: the guard, then \<open>k_star\<close>, \<open>k_star_star\<close>,
  \<^verbatim>\<open>np.dot(np.dot(k_star, _k_inv), train_y)\<close> and
  \<^verbatim>\<open>k_star_star - np.dot(k_star, np.dot(_k_inv, k_star.T))\<close>, in the order in which the code
  evaluates them.
\<close>

definition posterior_moments ::
  "('a::{zero,plus,minus,times}, 'r, 'e) regressor \<Rightarrow> 'a ndarray
     \<Rightarrow> ('a, 'r, 'e) regressor \<times> ('e error + 'a mat \<times> 'a mat)"
where
  "posterior_moments s x =
     (if \<not> is_fit s then (s, Inl ValueError_not_fit)
      else
        (let x2 = atleast_2d x in
         (s,
          and_then (not_none (train_x s)) (\<lambda>tx.
          and_then (lib (kernel s x2 tx)) (\<lambda>k_star.
          and_then (lib (kernel s x2 x2)) (\<lambda>k_star_star.
          and_then (not_none (k_inv s)) (\<lambda>ki.
          and_then (np_dot k_star ki) (\<lambda>a.
          and_then (not_none (train_y s)) (\<lambda>ty.
          and_then (np_dot a ty) (\<lambda>posterior_mean.
          and_then (np_dot ki (np_T k_star)) (\<lambda>b.
          and_then (np_dot k_star b) (\<lambda>c.
          and_then (np_sub k_star_star c) (\<lambda>posterior_cov.
          Inr (posterior_mean, posterior_cov))))))))))))))"

text \<open>
  \<^verbatim>\<open>sample_posterior\<close>. The jitter is \<^verbatim>\<open>reg * np.diag(np.random.randn(posterior_cov.shape[0]))\<close>:
  \<^verbatim>\<open>np.random.randn\<close> reads and advances the process-wide generator \<open>g\<close>, so the method
  takes and returns its state next to the regressor.
\<close>

definition sample_posterior ::
  "('a::{zero,plus,minus,times}, 'r, 'g, 'e) numpy \<Rightarrow> ('a, 'r, 'e) regressor \<Rightarrow> 'g
     \<Rightarrow> 'a ndarray \<Rightarrow> int \<Rightarrow> bool \<Rightarrow> 'a
     \<Rightarrow> (('a, 'r, 'e) regressor \<times> 'g) \<times> ('e error + 'a mat \<times> 'a list option)"
where
  "sample_posterior np s g x size0 return_std reg =
     (if \<not> is_fit s then ((s, g), Inl ValueError_not_fit)
      else
        case posterior_moments s x of
          (s1, Inl e) \<Rightarrow> ((s1, g), Inl e)
        | (s1, Inr (posterior_mean, posterior_cov)) \<Rightarrow>
            (case randn np g (nrows posterior_cov) of
               (g', z) \<Rightarrow>
                 (case np_add posterior_cov (scale reg (diag_of_vec z)) of
                    Inl e \<Rightarrow> ((s1, g'), Inl e)
                  | Inr cov \<Rightarrow>
                      (case sample np s1 (squeeze posterior_mean) cov size0 of
                         (s2, Inl e) \<Rightarrow> ((s2, g'), Inl e)
                       | (s2, Inr samples) \<Rightarrow>
                           ((s2, g'),
                            Inr (samples,
                                 if return_std then Some (map (np_sqrt np) (diag_of_mat cov))
                                 else None))))))"

text \<open>\<^verbatim>\<open>predict\<close>.\<close>

definition predict ::
  "('a::{zero,plus,minus,times}, 'r, 'g, 'e) numpy \<Rightarrow> ('a, 'r, 'e) regressor
     \<Rightarrow> 'a ndarray \<Rightarrow> bool
     \<Rightarrow> ('a, 'r, 'e) regressor \<times> ('e error + 'a mat \<times> 'a list option)"
where
  "predict np s x return_std =
     (if \<not> is_fit s then (s, Inl ValueError_not_fit)
      else
        case posterior_moments s x of
          (s1, Inl e) \<Rightarrow> (s1, Inl e)
        | (s1, Inr (posterior_mean, posterior_cov)) \<Rightarrow>
            (s1, Inr (posterior_mean,
                      if return_std then Some (map (np_sqrt np) (diag_of_mat posterior_cov))
                      else None)))"

section \<open>A concrete setting to run the model in\<close>

text \<open>
  The kernel, the inversion and the two generators are supplied from outside the
  regressor. To evaluate the model on concrete inputs they are instantiated over the
  reals: the linear kernel \<open>k(a, b) = a * b\<close> over the points of its two arguments
  (whatever their orientation), the exact inverse of a \<open>1 \<times> 1\<close> or \<open>2 \<times> 2\<close> matrix
  (raising for a singular one, as \<^verbatim>\<open>np.linalg.inv\<close> does), a sampler that is a fixed
  function of its generator state, the mean and the covariance and that rejects a
  mean that is not flat or a covariance of another size (as numpy's does), and a
  counter for the process-wide generator.
\<close>

datatype lib_error = LinAlgError | ValueError_lib

definition linear_kernel :: "real mat \<Rightarrow> real mat \<Rightarrow> lib_error + real mat" where
  "linear_kernel x y = Inr (map (\<lambda>a. map (\<lambda>b. a * b) (concat y)) (concat x))"

definition small_inv :: "real mat \<Rightarrow> lib_error + real mat" where
  "small_inv m =
     (case m of
        [[a]] \<Rightarrow> if a = 0 then Inl LinAlgError else Inr [[1 / a]]
      | [[a, b], [c, d]] \<Rightarrow>
          if a * d - b * c = 0 then Inl LinAlgError
          else Inr [[d / (a * d - b * c), - b / (a * d - b * c)],
                    [- c / (a * d - b * c), a / (a * d - b * c)]]
      | _ \<Rightarrow> Inl LinAlgError)"

definition toy_mvn :: "nat \<Rightarrow> real ndarray \<Rightarrow> real mat \<Rightarrow> int \<Rightarrow> nat \<times> (lib_error + real mat)" where
  "toy_mvn r mean cov size0 =
     (case mean of
        A1 v \<Rightarrow>
          if is_mat (length v) (length v) cov
          then (Suc r, Inr (replicate (nat size0) (map2 (\<lambda>m c. m + real r * c) v (diag_of_mat cov))))
          else (r, Inl ValueError_lib)
      | _ \<Rightarrow> (r, Inl ValueError_lib))"

definition toy_randn :: "nat \<Rightarrow> nat \<Rightarrow> nat \<times> real list" where
  "toy_randn g n = (g + n, map (\<lambda>i. real (g + i)) [0..<n])"

definition toy_numpy :: "(real, nat, nat, lib_error) numpy" where
  "toy_numpy = \<lparr> linalg_inv = small_inv, multivariate_normal = toy_mvn, randn = toy_randn,
                 np_sqrt = sqrt, seed0 = 0 \<rparr>"

definition unfit0 :: "(real, nat, lib_error) regressor" where
  "unfit0 = init toy_numpy linear_kernel None"

definition fitted0 :: "(real, nat, lib_error) regressor" where
  "fitted0 = fst (fit toy_numpy unfit0 (A2 [[1], [2]]) (A2 [[3], [4]]) (A0 1))"

section \<open>The posterior moments as the specification writes them\<close>

text \<open>
  The matrix product, difference and transpose by their entries, and the two formulas
  \<open>K* \<cdot> K_inv \<cdot> train_y\<close> and \<open>K** - K* \<cdot> K_inv \<cdot> K*\<^sup>T\<close>, the products
  associated to the left.
\<close>

definition mat_mul :: "'a::semiring_0 mat \<Rightarrow> 'a mat \<Rightarrow> 'a mat" where
  "mat_mul a b =
     map (\<lambda>i. map (\<lambda>j. sum_list (map (\<lambda>l. a ! i ! l * b ! l ! j) [0..<nrows b])) [0..<ncols b])
       [0..<nrows a]"

definition mat_sub :: "'a::minus mat \<Rightarrow> 'a mat \<Rightarrow> 'a mat" where
  "mat_sub a b = map (\<lambda>i. map (\<lambda>j. a ! i ! j - b ! i ! j) [0..<ncols a]) [0..<nrows a]"

definition mat_T :: "'a mat \<Rightarrow> 'a mat" where
  "mat_T a = map (\<lambda>j. map (\<lambda>i. a ! i ! j) [0..<nrows a]) [0..<ncols a]"

definition spec_posterior_mean :: "'a::semiring_0 mat \<Rightarrow> 'a mat \<Rightarrow> 'a mat \<Rightarrow> 'a mat" where
  "spec_posterior_mean k_star ki ty = mat_mul (mat_mul k_star ki) ty"

definition spec_posterior_cov :: "'a::ring mat \<Rightarrow> 'a mat \<Rightarrow> 'a mat \<Rightarrow> 'a mat" where
  "spec_posterior_cov k_star_star k_star ki =
     mat_sub k_star_star (mat_mul (mat_mul k_star ki) (mat_T k_star))"

section \<open>The regularised kernel matrix as the specification writes it\<close>

text \<open>
  \<open>K_train = Kernel(x, x) + noise_level\<^sup>2 \<cdot> I\<close>: the kernel matrix with the square of
  the noise level added on its diagonal, the noise level being one scalar or one value
  for each training point.
\<close>

fun noise_sq :: "'a::times ndarray \<Rightarrow> nat \<Rightarrow> 'a" where
  "noise_sq (A0 a) i = a * a"
| "noise_sq (A1 v) i = v ! i * v ! i"
| "noise_sq (A2 m) i = m ! i ! i * m ! i ! i"

fun valid_noise :: "nat \<Rightarrow> 'a ndarray \<Rightarrow> bool" where
  "valid_noise n (A0 a) = True"
| "valid_noise n (A1 v) = (length v = n)"
| "valid_noise n (A2 m) = False"

definition spec_k_train :: "'a::semiring_1 mat \<Rightarrow> 'a ndarray \<Rightarrow> 'a mat" where
  "spec_k_train km nl =
     map (\<lambda>i. map (\<lambda>j. km ! i ! j + (if i = j then noise_sq nl i else 0)) [0..<ncols km])
       [0..<nrows km]"

section \<open>The perturbed covariance as the specification writes it\<close>

text \<open>
  The posterior covariance with \<open>reg\<close> times a diagonal matrix of drawn values added:
  the entry \<open>(i, i)\<close> grows by \<open>reg * z\<^sub>i\<close>, the other entries by \<open>reg * 0\<close>.
\<close>

definition spec_perturbed_cov :: "'a::{zero,plus,times} mat \<Rightarrow> 'a \<Rightarrow> 'a list \<Rightarrow> 'a mat" where
  "spec_perturbed_cov c reg z =
     map (\<lambda>i. map (\<lambda>j. c ! i ! j + reg * (if i = j then z ! i else 0)) [0..<ncols c]) [0..<nrows c]"

section \<open>Sequences of calls\<close>

text \<open>
  A client calls the five methods in any order. A call runs on the regressor and on the
  state of the process-wide generator and either returns or raises; \<open>step\<close> gives the
  state after the call and whether it returned. \<open>last_fit_returned\<close> tells whether the
  most recent \<open>fit\<close> of a sequence returned (its last argument is the answer for the
  calls before the sequence). The cached inverse is consistent with the training set
  when it is what the inversion returns for the regularised kernel matrix of the stored
  inputs and the stored noise level.
\<close>

datatype 'a call =
    is_Fit: Fit "'a ndarray" "'a ndarray" "'a ndarray"
  | Sample_prior "'a ndarray" int bool
  | Posterior_moments "'a ndarray"
  | Sample_posterior "'a ndarray" int bool 'a
  | Predict "'a ndarray" bool

definition returned :: "'x + 'v \<Rightarrow> bool" where
  "returned r = (case r of Inl e \<Rightarrow> False | Inr v \<Rightarrow> True)"

fun step ::
  "('a::{zero,one,plus,minus,times}, 'r, 'g, 'e) numpy \<Rightarrow> ('a, 'r, 'e) regressor \<times> 'g \<Rightarrow> 'a call
     \<Rightarrow> (('a, 'r, 'e) regressor \<times> 'g) \<times> bool"
where
  "step np (s, g) (Fit x y nl) = (case fit np s x y nl of (s', r) \<Rightarrow> ((s', g), returned r))"
| "step np (s, g) (Sample_prior x n rs) =
     (case sample_prior np s x n rs of (s', r) \<Rightarrow> ((s', g), returned r))"
| "step np (s, g) (Posterior_moments x) =
     (case posterior_moments s x of (s', r) \<Rightarrow> ((s', g), returned r))"
| "step np (s, g) (Sample_posterior x n rs reg) =
     (case sample_posterior np s g x n rs reg of (sg, r) \<Rightarrow> (sg, returned r))"
| "step np (s, g) (Predict x rs) = (case predict np s x rs of (s', r) \<Rightarrow> ((s', g), returned r))"

fun run ::
  "('a::{zero,one,plus,minus,times}, 'r, 'g, 'e) numpy \<Rightarrow> ('a, 'r, 'e) regressor \<times> 'g
     \<Rightarrow> 'a call list \<Rightarrow> ('a, 'r, 'e) regressor \<times> 'g"
where
  "run np st [] = st"
| "run np st (c # cs) = run np (fst (step np st c)) cs"

fun some_fit_returned ::
  "('a::{zero,one,plus,minus,times}, 'r, 'g, 'e) numpy \<Rightarrow> ('a, 'r, 'e) regressor \<times> 'g
     \<Rightarrow> 'a call list \<Rightarrow> bool"
where
  "some_fit_returned np st [] = False"
| "some_fit_returned np st (c # cs) =
     ((is_Fit c \<and> snd (step np st c)) \<or> some_fit_returned np (fst (step np st c)) cs)"

fun no_failed_refit ::
  "('a::{zero,one,plus,minus,times}, 'r, 'g, 'e) numpy \<Rightarrow> ('a, 'r, 'e) regressor \<times> 'g
     \<Rightarrow> 'a call list \<Rightarrow> bool"
where
  "no_failed_refit np st [] = True"
| "no_failed_refit np st (c # cs) =
     (\<not> (is_Fit c \<and> is_fit (fst st) \<and> \<not> snd (step np st c)) \<and>
      no_failed_refit np (fst (step np st c)) cs)"

fun last_fit_returned ::
  "('a::{zero,one,plus,minus,times}, 'r, 'g, 'e) numpy \<Rightarrow> ('a, 'r, 'e) regressor \<times> 'g
     \<Rightarrow> 'a call list \<Rightarrow> bool \<Rightarrow> bool"
where
  "last_fit_returned np st [] b = b"
| "last_fit_returned np st (c # cs) b =
     last_fit_returned np (fst (step np st c)) cs (if is_Fit c then snd (step np st c) else b)"

definition consistent ::
  "('a::{zero,one,plus,times}, 'r, 'g, 'e) numpy \<Rightarrow> ('a, 'r, 'e) regressor \<Rightarrow> bool"
where
  "consistent np s =
     (case (train_x s, noise_level s, k_inv s) of
        (Some tx, Some nl, Some ki) \<Rightarrow>
          (case and_then (lib (kernel s tx tx)) (\<lambda>km. regularize km nl) of
             Inl e \<Rightarrow> False
           | Inr kt \<Rightarrow> linalg_inv np kt = Inr ki)
      | _ \<Rightarrow> False)"

definition training_of ::
  "('a, 'r, 'e) regressor \<Rightarrow>
     ('a mat \<Rightarrow> 'a mat \<Rightarrow> 'e + 'a mat) \<times> bool \<times> 'a mat option \<times> 'a mat option \<times> 'a mat option \<times>
     'a mat option \<times> 'a ndarray option"
where
  "training_of s = (kernel s, is_fit s, train_x s, train_y s, k s, k_inv s, noise_level s)"

section \<open>Properties\<close>

subsection \<open>Auxiliary facts\<close>

lemma and_then_neq: "r \<noteq> Inl e \<Longrightarrow> (\<And>v. f v \<noteq> Inl e) \<Longrightarrow> and_then r f \<noteq> Inl e"
  by (auto simp: and_then_def split: sum.splits)

lemma lib_not_fit: "lib r \<noteq> Inl ValueError_not_fit"
  by (auto simp: lib_def split: sum.splits)

lemma not_none_not_fit: "not_none v \<noteq> Inl ValueError_not_fit"
  by (auto simp: not_none_def split: option.splits)

lemma broadcast_not_fit: "broadcast f a b \<noteq> Inl ValueError_not_fit"
  by (auto simp: broadcast_def split: option.splits)

lemma np_dot_not_fit: "np_dot a b \<noteq> Inl ValueError_not_fit"
  by (auto simp: np_dot_def)

lemma posterior_moments_state: "fst (posterior_moments s x) = s"
  by (simp add: posterior_moments_def Let_def)

lemma posterior_moments_fitted:
  "is_fit s \<Longrightarrow> snd (posterior_moments s x) \<noteq> Inl ValueError_not_fit"
  unfolding posterior_moments_def Let_def
  by (simp add: and_then_neq lib_not_fit not_none_not_fit np_dot_not_fit broadcast_not_fit np_sub_def)

lemma sample_not_fit: "snd (sample np s mean cov n) \<noteq> Inl ValueError_not_fit"
  by (auto simp: sample_def and_then_def lib_def split: prod.splits sum.splits)

lemma predict_fitted: "is_fit s \<Longrightarrow> snd (predict np s x rs) \<noteq> Inl ValueError_not_fit"
  using posterior_moments_fitted[of s x]
  by (auto simp: predict_def split: prod.splits sum.splits)

lemma sample_posterior_fitted:
  "is_fit s \<Longrightarrow> snd (sample_posterior np s g x n rs reg) \<noteq> Inl ValueError_not_fit"
  using posterior_moments_fitted[of s x] sample_not_fit[of np]
  apply (auto simp: sample_posterior_def np_add_def split: prod.splits sum.splits)
  using broadcast_not_fit apply metis
  by (metis snd_conv)

lemma sample_prior_not_fit: "snd (sample_prior np s x n rs) \<noteq> Inl ValueError_not_fit"
  using sample_not_fit[of np]
  apply (auto simp: sample_prior_def Let_def lib_not_fit split: prod.splits sum.splits)
  by (metis snd_conv)


lemma regularize_eval:
  "(regularize [[1, 2], [2, 4]] (A0 (1::real)) :: lib_error error + real mat) = Inr [[2, 2], [2, 5]]"
  by (simp add: regularize_def and_then_def np_mul_def np_add_def broadcast_def bdim_def bget_def
      nrows_def ncols_def np_eye_def upt_rec)

lemma fit_unfit0:
  "fit toy_numpy unfit0 (A2 [[1], [2]]) (A2 [[3], [4]]) (A0 1) =
     (unfit0\<lparr>train_x := Some [[1], [2]], train_y := Some [[3], [4]], noise_level := Some (A0 1),
              k := Some [[2, 2], [2, 5]],
              k_inv := Some [[5 / 6, - (1 / 3)], [- (1 / 3), 1 / 3]], is_fit := True\<rparr>, Inr ())"
  by (simp add: fit_def unfit0_def init_def toy_numpy_def linear_kernel_def lib_def and_then_def
      regularize_eval small_inv_def)

lemma fitted0_eq:
  "fitted0 = \<lparr> kernel = linear_kernel, random_state = 0, is_fit = True,
       train_x = Some [[1], [2]], train_y = Some [[3], [4]], k = Some [[2, 2], [2, 5]],
       k_inv = Some [[5 / 6, - (1 / 3)], [- (1 / 3), 1 / 3]], noise_level = Some (A0 1) \<rparr>"
  by (simp add: fitted0_def fit_unfit0) (simp add: unfit0_def init_def toy_numpy_def)

lemma posterior_moments_fitted0:
  "posterior_moments (fitted0\<lparr>random_state := r\<rparr>) (A2 [[1], [3]]) =
     (fitted0\<lparr>random_state := r\<rparr>, Inr ([[11 / 6], [11 / 2]], [[1 / 6, 1 / 2], [1 / 2, 3 / 2]]))"
  by (simp add: posterior_moments_def fitted0_eq Let_def and_then_def lib_def not_none_def
      linear_kernel_def np_dot_def np_T_def np_sub_def broadcast_def bdim_def bget_def inner_def
      column_def nrows_def ncols_def upt_rec)

subsection \<open>Posterior queries need a fit, the prior query does not\<close>

text \<open>
  Claim C3. On a regressor that has not been fit, \<open>posterior_moments\<close>,
  \<open>sample_posterior\<close> and \<open>predict\<close> raise the not-fit error and leave the regressor (and
  the process-wide generator) as they were. \<open>sample_prior\<close> never raises that error,
  its outcome does not depend on the fit flag or on any field that \<open>fit\<close> sets, and it
  returns whenever the kernel and the sampler do. A \<open>fit\<close> that returns sets the flag,
  and with the flag set none of the three posterior queries raises the not-fit error.
\<close>

theorem C3_unfit_precondition:
  fixes np :: "('a::{zero,one,plus,minus,times}, 'r, 'g, 'e) numpy"
  shows
  "(\<not> is_fit s \<longrightarrow>
      posterior_moments s x = (s, Inl ValueError_not_fit) \<and>
      sample_posterior np s g x n rs reg = ((s, g), Inl ValueError_not_fit) \<and>
      predict np s x rs = (s, Inl ValueError_not_fit)) \<and>
   snd (sample_prior np s x n rs) \<noteq> Inl ValueError_not_fit \<and>
   snd (sample_prior np
          (s\<lparr>is_fit := b, train_x := tx, train_y := ty, k := km, k_inv := ki, noise_level := nl\<rparr>)
          x n rs) = snd (sample_prior np s x n rs) \<and>
   (kernel s (atleast_2d x) (atleast_2d x) = Inr cov \<and>
    snd (multivariate_normal np (random_state s) (A1 (zero_prior_mean (atleast_2d x))) cov n) = Inr smp
      \<longrightarrow> snd (sample_prior np s x n rs) =
            Inr (np_T smp, if rs then Some (map (np_sqrt np) (diag_of_mat cov)) else None)) \<and>
   (snd (fit np s x0 y0 nl0) = Inr () \<longrightarrow> is_fit (fst (fit np s x0 y0 nl0))) \<and>
   (is_fit s \<longrightarrow>
      snd (posterior_moments s x) \<noteq> Inl ValueError_not_fit \<and>
      snd (sample_posterior np s g x n rs reg) \<noteq> Inl ValueError_not_fit \<and>
      snd (predict np s x rs) \<noteq> Inl ValueError_not_fit)"
proof (intro conjI impI)
  assume "\<not> is_fit s"
  then show "posterior_moments s x = (s, Inl ValueError_not_fit)"
    and "sample_posterior np s g x n rs reg = ((s, g), Inl ValueError_not_fit)"
    and "predict np s x rs = (s, Inl ValueError_not_fit)"
    by (simp_all add: posterior_moments_def sample_posterior_def predict_def)
next
  show "snd (sample_prior np s x n rs) \<noteq> Inl ValueError_not_fit"
    by (rule sample_prior_not_fit)
next
  show "snd (sample_prior np
          (s\<lparr>is_fit := b, train_x := tx, train_y := ty, k := km, k_inv := ki, noise_level := nl\<rparr>)
          x n rs) = snd (sample_prior np s x n rs)"
    by (simp add: sample_prior_def sample_def Let_def split: sum.splits prod.splits)
next
  assume "kernel s (atleast_2d x) (atleast_2d x) = Inr cov \<and>
    snd (multivariate_normal np (random_state s) (A1 (zero_prior_mean (atleast_2d x))) cov n) = Inr smp"
  then show "snd (sample_prior np s x n rs) =
            Inr (np_T smp, if rs then Some (map (np_sqrt np) (diag_of_mat cov)) else None)"
    by (auto simp: sample_prior_def sample_def Let_def lib_def and_then_def split: prod.splits)
next
  assume "snd (fit np s x0 y0 nl0) = Inr ()"
  then show "is_fit (fst (fit np s x0 y0 nl0))"
    by (auto simp: fit_def Let_def split: sum.splits)
next
  assume "is_fit s"
  then show "snd (posterior_moments s x) \<noteq> Inl ValueError_not_fit"
    and "snd (sample_posterior np s g x n rs reg) \<noteq> Inl ValueError_not_fit"
    and "snd (predict np s x rs) \<noteq> Inl ValueError_not_fit"
    by (simp_all add: posterior_moments_fitted sample_posterior_fitted predict_fitted)
qed

theorem C3_unfit_precondition_witness:
  "\<not> is_fit unfit0 \<and>
   posterior_moments unfit0 (A2 [[1], [3]]) = (unfit0, Inl ValueError_not_fit) \<and>
   sample_posterior toy_numpy unfit0 7 (A2 [[1], [3]]) 2 True 1 = ((unfit0, 7), Inl ValueError_not_fit) \<and>
   predict toy_numpy unfit0 (A2 [[1], [3]]) True = (unfit0, Inl ValueError_not_fit) \<and>
   kernel unfit0 (atleast_2d (A2 [[1], [3]])) (atleast_2d (A2 [[1], [3]])) = Inr [[1, 3], [3, 9]] \<and>
   snd (multivariate_normal toy_numpy (random_state unfit0)
          (A1 (zero_prior_mean (atleast_2d (A2 [[1::real], [3]])))) [[1, 3], [3, 9]] 2)
     = Inr [[0, 0], [0, 0]] \<and>
   snd (sample_prior toy_numpy unfit0 (A2 [[1], [3]]) 2 False) = Inr ([[0, 0], [0, 0]], None) \<and>
   snd (fit toy_numpy unfit0 (A2 [[1], [2]]) (A2 [[3], [4]]) (A0 1)) = Inr () \<and>
   is_fit fitted0 \<and>
   snd (posterior_moments fitted0 (A2 [[1], [3]])) \<noteq> Inl ValueError_not_fit \<and>
   snd (sample_posterior toy_numpy fitted0 7 (A2 [[1], [3]]) 2 True 1) \<noteq> Inl ValueError_not_fit \<and>
   snd (predict toy_numpy fitted0 (A2 [[1], [3]]) True) \<noteq> Inl ValueError_not_fit"
proof -
  have u: "\<not> is_fit unfit0" by (simp add: unfit0_def init_def)
  have f: "is_fit fitted0" by (simp add: fitted0_eq)
  have kk: "kernel unfit0 (atleast_2d (A2 [[1], [3]])) (atleast_2d (A2 [[1], [3]])) = Inr [[1, 3], [3, 9]]"
    by (simp add: unfit0_def init_def linear_kernel_def)
  have mv: "snd (multivariate_normal toy_numpy (random_state unfit0)
          (A1 (zero_prior_mean (atleast_2d (A2 [[1::real], [3]])))) [[1, 3], [3, 9]] 2)
     = Inr [[0, 0], [0, 0]]"
    by (simp add: toy_numpy_def toy_mvn_def unfit0_def init_def zero_prior_mean_def np_zeros_def
        nrows_def ncols_def is_mat_def diag_of_mat_def numeral_2_eq_2 upt_rec)
  have T: "np_T [[0, 0], [0, 0::real]] = [[0, 0], [0, 0]]"
    by (simp add: np_T_def ncols_def upt_rec)
  show ?thesis
    using C3_unfit_precondition[where s = unfit0 and x = "A2 [[1], [3]]" and np = toy_numpy and g = 7
            and n = 2 and rs = True and reg = 1 and cov = "[[1, 3], [3, 9]]"
            and smp = "[[0, 0], [0, 0]]" and ?x0.0 = "A2 [[1], [2]]" and ?y0.0 = "A2 [[3], [4]]"
            and ?nl0.0 = "A0 1"]
          C3_unfit_precondition[where s = unfit0 and x = "A2 [[1], [3]]" and np = toy_numpy and g = 7
            and n = 2 and rs = False and reg = 1 and cov = "[[1, 3], [3, 9]]"
            and smp = "[[0, 0], [0, 0]]" and ?x0.0 = "A2 [[1], [2]]" and ?y0.0 = "A2 [[3], [4]]"
            and ?nl0.0 = "A0 1"]
          C3_unfit_precondition[where s = fitted0 and x = "A2 [[1], [3]]" and np = toy_numpy and g = 7
            and n = 2 and rs = True and reg = 1]
          u f kk mv T fit_unfit0
    by (simp add: fitted0_def)
qed


subsection \<open>A fit that raises\<close>

lemma fit_flag:
  "is_fit (fst (fit np s x y nl)) = (is_fit s \<or> snd (fit np s x y nl) = Inr ())"
  by (auto simp: fit_def Let_def split: sum.splits)

lemma fit_returns_iff:
  fixes np :: "('a::{zero,one,plus,times}, 'r, 'g, 'e) numpy"
  shows "snd (fit np s x y nl) = Inr () \<longleftrightarrow>
     (\<exists>km kt ki. kernel s (atleast_2d x) (atleast_2d x) = Inr km \<and>
        (regularize km nl :: 'e error + 'a mat) = Inr kt \<and> linalg_inv np kt = Inr ki)"
proof (cases "kernel s (atleast_2d x) (atleast_2d x)")
  case (Inl e)
  then show ?thesis by (simp add: fit_def Let_def lib_def and_then_def)
next
  case km: (Inr km)
  show ?thesis
  proof (cases "regularize km nl :: 'e error + 'a mat")
    case (Inl e)
    with km show ?thesis by (simp add: fit_def Let_def lib_def and_then_def)
  next
    case kt: (Inr kt)
    show ?thesis
      using km kt by (cases "linalg_inv np kt") (simp_all add: fit_def Let_def lib_def and_then_def)
  qed
qed

lemma fit_raises_state:
  "snd (fit np s x y nl) = Inl e \<Longrightarrow>
     fst (fit np s x y nl) =
       s\<lparr>train_x := Some (atleast_2d x), train_y := Some (atleast_2d y), noise_level := Some nl,
         k := (case and_then (lib (kernel s (atleast_2d x) (atleast_2d x))) (\<lambda>km. regularize km nl)
               of Inl e' \<Rightarrow> k s | Inr kt \<Rightarrow> Some kt)\<rparr>"
  by (auto simp: fit_def Let_def split: sum.splits)

lemma fit_unfit0_singular:
  "fit toy_numpy unfit0 (A2 [[1], [2]]) (A2 [[3], [4]]) (A0 0) =
     (unfit0\<lparr>train_x := Some [[1], [2]], train_y := Some [[3], [4]], noise_level := Some (A0 0),
              k := Some [[1, 2], [2, 4]]\<rparr>, Inl (Library LinAlgError))"
  by (simp add: fit_def unfit0_def init_def toy_numpy_def linear_kernel_def lib_def and_then_def
      small_inv_def regularize_def np_mul_def np_add_def broadcast_def bdim_def bget_def
      nrows_def ncols_def np_eye_def upt_rec)

text \<open>
  Claim C10. The fit flag is set exactly when \<open>fit\<close> returns, which it does exactly when the
  kernel, the regularisation and the inversion all return. When \<open>fit\<close> raises, the flag and
  the cached inverse are what they were before the call, the training inputs, the training
  targets and the noise level are those of the failed call, and the kernel matrix is the
  new one if the inversion was reached and the old one otherwise. A regressor that was
  not fit before still raises the not-fit error on every posterior query.
\<close>

theorem C10_fit_not_atomic:
  fixes np :: "('a::{zero,one,plus,minus,times}, 'r, 'g, 'e) numpy"
  shows
  "is_fit (fst (fit np s x y nl)) = (is_fit s \<or> snd (fit np s x y nl) = Inr ()) \<and>
   (snd (fit np s x y nl) = Inr () \<longleftrightarrow>
      (\<exists>km kt ki. kernel s (atleast_2d x) (atleast_2d x) = Inr km \<and>
         (regularize km nl :: 'e error + 'a mat) = Inr kt \<and> linalg_inv np kt = Inr ki)) \<and>
   (snd (fit np s x y nl) = Inl e \<longrightarrow>
      (let s' = fst (fit np s x y nl) in
         is_fit s' = is_fit s \<and> k_inv s' = k_inv s \<and>
         train_x s' = Some (atleast_2d x) \<and> train_y s' = Some (atleast_2d y) \<and>
         noise_level s' = Some nl \<and>
         k s' = (case and_then (lib (kernel s (atleast_2d x) (atleast_2d x)))
                        (\<lambda>km. regularize km nl)
                 of Inl e' \<Rightarrow> k s | Inr kt \<Rightarrow> Some kt) \<and>
         (\<not> is_fit s \<longrightarrow>
            posterior_moments s' x' = (s', Inl ValueError_not_fit) \<and>
            sample_posterior np s' g x' n rs reg = ((s', g), Inl ValueError_not_fit) \<and>
            predict np s' x' rs = (s', Inl ValueError_not_fit))))"
proof (intro conjI impI)
  show "is_fit (fst (fit np s x y nl)) = (is_fit s \<or> snd (fit np s x y nl) = Inr ())"
    by (rule fit_flag)
  show "snd (fit np s x y nl) = Inr () \<longleftrightarrow>
      (\<exists>km kt ki. kernel s (atleast_2d x) (atleast_2d x) = Inr km \<and>
         (regularize km nl :: 'e error + 'a mat) = Inr kt \<and> linalg_inv np kt = Inr ki)"
    by (rule fit_returns_iff)
next
  assume raised: "snd (fit np s x y nl) = Inl e"
  note st = fit_raises_state[OF raised]
  show "let s' = fst (fit np s x y nl) in
         is_fit s' = is_fit s \<and> k_inv s' = k_inv s \<and>
         train_x s' = Some (atleast_2d x) \<and> train_y s' = Some (atleast_2d y) \<and>
         noise_level s' = Some nl \<and>
         k s' = (case and_then (lib (kernel s (atleast_2d x) (atleast_2d x)))
                        (\<lambda>km. regularize km nl)
                 of Inl e' \<Rightarrow> k s | Inr kt \<Rightarrow> Some kt) \<and>
         (\<not> is_fit s \<longrightarrow>
            posterior_moments s' x' = (s', Inl ValueError_not_fit) \<and>
            sample_posterior np s' g x' n rs reg = ((s', g), Inl ValueError_not_fit) \<and>
            predict np s' x' rs = (s', Inl ValueError_not_fit))"
    unfolding Let_def st
    by (simp add: posterior_moments_def sample_posterior_def predict_def)
qed

theorem C10_fit_not_atomic_witness:
  "snd (fit toy_numpy unfit0 (A2 [[1], [2]]) (A2 [[3], [4]]) (A0 0)) = Inl (Library LinAlgError) \<and>
   \<not> is_fit unfit0 \<and>
   (let s' = fst (fit toy_numpy unfit0 (A2 [[1], [2]]) (A2 [[3], [4]]) (A0 0)) in
      \<not> is_fit s' \<and> k_inv s' = None \<and> train_x s' = Some [[1], [2]] \<and>
      train_y s' = Some [[3], [4]] \<and> noise_level s' = Some (A0 0) \<and>
      k s' = Some [[1, 2], [2, 4]] \<and>
      predict toy_numpy s' (A2 [[5]]) False = (s', Inl ValueError_not_fit))"
  using C10_fit_not_atomic[where np = toy_numpy and s = unfit0 and x = "A2 [[1], [2]]"
      and y = "A2 [[3], [4]]" and nl = "A0 0" and e = "Library LinAlgError" and x' = "A2 [[5]]"
      and rs = False and g = 0 and n = 1 and reg = 0]
  unfolding fit_unfit0_singular
  by (simp add: Let_def predict_def unfit0_def init_def)

subsection \<open>The posterior moments\<close>

lemma is_mat_nrows: "is_mat r c a \<Longrightarrow> nrows a = r"
  by (simp add: is_mat_def nrows_def)

lemma is_mat_ncols: "is_mat r c a \<Longrightarrow> 0 < r \<Longrightarrow> ncols a = c"
  by (cases a) (simp_all add: is_mat_def ncols_def)

lemma is_mat_row: "is_mat r c a \<Longrightarrow> i < r \<Longrightarrow> length (a ! i) = c"
  by (simp add: is_mat_def list_all_length)

lemma is_mat_mapI: "is_mat r c (map (\<lambda>i. map (f i) [0..<c]) [0..<r])"
  by (simp add: is_mat_def list_all_iff)

lemma map2_nth:
  "length u = length v \<Longrightarrow> map2 f u v = map (\<lambda>l. f (u ! l) (v ! l)) [0..<length u]"
  by (rule nth_equalityI) simp_all

lemma inner_sum:
  fixes u :: "'a::semiring_0 list"
  assumes "length u = length v"
  shows "inner u v = sum_list (map (\<lambda>l. u ! l * v ! l) [0..<length u])"
  by (simp add: inner_def sum_list.eq_foldr[symmetric] map2_nth[OF assms])

lemma np_dot_mat_mul:
  fixes a :: "'a::semiring_0 mat"
  assumes a: "is_mat r c a" and b: "is_mat c q b" and r: "0 < r" and c: "0 < c"
  shows "np_dot a b = Inr (mat_mul a b)"
proof -
  have nc: "ncols a = c" "nrows b = c" "ncols b = q" "nrows a = r"
    using a b r c by (simp_all add: is_mat_ncols is_mat_nrows)
  have "map (\<lambda>row. map (\<lambda>j. inner row (column b j)) [0..<q]) a
        = map (\<lambda>i. map (\<lambda>j. sum_list (map (\<lambda>l. a ! i ! l * b ! l ! j) [0..<c])) [0..<q]) [0..<r]"
  proof (rule nth_equalityI)
    show "length (map (\<lambda>row. map (\<lambda>j. inner row (column b j)) [0..<q]) a) =
          length (map (\<lambda>i. map (\<lambda>j. sum_list (map (\<lambda>l. a ! i ! l * b ! l ! j) [0..<c])) [0..<q]) [0..<r])"
      using nc by (simp add: nrows_def)
  next
    fix i assume "i < length (map (\<lambda>row. map (\<lambda>j. inner row (column b j)) [0..<q]) a)"
    then have i: "i < r" using nc by (simp add: nrows_def)
    have len: "length (a ! i) = c" using a i by (rule is_mat_row)
    have "\<And>j. inner (a ! i) (column b j) = sum_list (map (\<lambda>l. a ! i ! l * b ! l ! j) [0..<c])"
    proof -
      fix j
      have "length (a ! i) = length (column b j)"
        using len nc by (simp add: column_def nrows_def)
      from inner_sum[OF this]
      have "inner (a ! i) (column b j) = sum_list (map (\<lambda>l. a ! i ! l * column b j ! l) [0..<c])"
        using len by simp
      moreover have "map (\<lambda>l. a ! i ! l * column b j ! l) [0..<c] =
                     map (\<lambda>l. a ! i ! l * b ! l ! j) [0..<c]"
        using nc by (intro map_cong) (simp_all add: column_def nrows_def)
      ultimately show "inner (a ! i) (column b j) = sum_list (map (\<lambda>l. a ! i ! l * b ! l ! j) [0..<c])"
        by simp
    qed
    then show "map (\<lambda>row. map (\<lambda>j. inner row (column b j)) [0..<q]) a ! i =
          map (\<lambda>i. map (\<lambda>j. sum_list (map (\<lambda>l. a ! i ! l * b ! l ! j) [0..<c])) [0..<q]) [0..<r] ! i"
      using i nc by (simp add: nrows_def)
  qed
  then show ?thesis using nc by (simp add: np_dot_def mat_mul_def)
qed

lemma is_mat_mat_mul:
  "is_mat r c a \<Longrightarrow> is_mat c q b \<Longrightarrow> 0 < c \<Longrightarrow> is_mat r q (mat_mul a b)"
  by (simp add: mat_mul_def is_mat_nrows is_mat_ncols is_mat_mapI)

lemma mat_mul_nth:
  "is_mat r c a \<Longrightarrow> is_mat c q b \<Longrightarrow> 0 < c \<Longrightarrow> i < r \<Longrightarrow> j < q \<Longrightarrow>
     mat_mul a b ! i ! j = sum_list (map (\<lambda>l. a ! i ! l * b ! l ! j) [0..<c])"
  by (simp add: mat_mul_def is_mat_nrows is_mat_ncols)

lemma mat_mul_assoc:
  fixes a :: "'a::semiring_0 mat"
  assumes a: "is_mat r c a" and b: "is_mat c q b" and d: "is_mat q t d"
    and c: "0 < c" and q: "0 < q"
  shows "mat_mul a (mat_mul b d) = mat_mul (mat_mul a b) d"
proof -
  have bd: "is_mat c t (mat_mul b d)" using b d q by (rule is_mat_mat_mul)
  have ab: "is_mat r q (mat_mul a b)" using a b c by (rule is_mat_mat_mul)
  have entry: "sum_list (map (\<lambda>l. a ! i ! l * mat_mul b d ! l ! j) [0..<c]) =
               sum_list (map (\<lambda>h. mat_mul a b ! i ! h * d ! h ! j) [0..<q])"
    if i: "i < r" and j: "j < t" for i j
  proof -
    have "sum_list (map (\<lambda>l. a ! i ! l * mat_mul b d ! l ! j) [0..<c])
          = (\<Sum>l\<in>{0..<c}. a ! i ! l * (\<Sum>h\<in>{0..<q}. b ! l ! h * d ! h ! j))"
      using mat_mul_nth[OF b d q _ j]
      by (simp add: interv_sum_list_conv_sum_set_nat)
    also have "\<dots> = (\<Sum>l\<in>{0..<c}. \<Sum>h\<in>{0..<q}. a ! i ! l * b ! l ! h * d ! h ! j)"
      by (simp add: sum_distrib_left mult.assoc)
    also have "\<dots> = (\<Sum>h\<in>{0..<q}. \<Sum>l\<in>{0..<c}. a ! i ! l * b ! l ! h * d ! h ! j)"
      by (rule sum.swap)
    also have "\<dots> = (\<Sum>h\<in>{0..<q}. (\<Sum>l\<in>{0..<c}. a ! i ! l * b ! l ! h) * d ! h ! j)"
      by (simp add: sum_distrib_right)
    also have "\<dots> = sum_list (map (\<lambda>h. mat_mul a b ! i ! h * d ! h ! j) [0..<q])"
      using mat_mul_nth[OF a b c i]
      by (simp add: interv_sum_list_conv_sum_set_nat)
    finally show ?thesis .
  qed
  have nr: "nrows (mat_mul b d) = c" "nrows (mat_mul a b) = r" "nrows a = r" "nrows d = q"
    using bd ab a d by (simp_all add: is_mat_nrows)
  have nc: "ncols (mat_mul b d) = t" "ncols d = t"
    using bd d c q by (simp_all add: is_mat_ncols)
  show ?thesis
    unfolding mat_mul_def[of a "mat_mul b d"] mat_mul_def[of "mat_mul a b" d] nr nc
    using entry by (simp cong: map_cong)
qed

lemma np_T_mat_T:
  assumes "is_mat r c a" and "0 < r"
  shows "np_T a = mat_T a" and "is_mat c r (np_T a)"
proof -
  have n: "nrows a = r" "ncols a = c" "length a = r"
    using assms by (simp_all add: is_mat_nrows is_mat_ncols) (simp add: is_mat_def)
  have "map (\<lambda>row. row ! j) a = map (\<lambda>i. a ! i ! j) [0..<r]" for j
    using n by (intro nth_equalityI) simp_all
  then show "np_T a = mat_T a" by (simp add: np_T_def mat_T_def n)
  then show "is_mat c r (np_T a)" by (simp add: mat_T_def n is_mat_mapI)
qed

lemma np_sub_mat_sub:
  assumes a: "is_mat r c a" and b: "is_mat r c b" and r: "0 < r"
  shows "np_sub a b = Inr (mat_sub a b)"
proof -
  have n: "nrows a = r" "nrows b = r" "ncols a = c" "ncols b = c"
    using a b r by (simp_all add: is_mat_nrows is_mat_ncols)
  have g: "bget a i j = a ! i ! j" "bget b i j = b ! i ! j" if "i < r" "j < c" for i j
    using that n by (auto simp: bget_def)
  show ?thesis
    using g by (simp add: np_sub_def broadcast_def bdim_def n mat_sub_def cong: map_cong)
qed


lemma mat_mul_eval1:
  "mat_mul [[1, 2], [3, 6]] [[5 / 6, - (1 / 3)], [- (1 / 3), 1 / 3 :: real]] = [[1 / 6, 1 / 3], [1 / 2, 1]]"
  by (simp add: mat_mul_def nrows_def ncols_def upt_rec)

text \<open>
  Claim C1. On a fitted regressor, with \<open>K*\<close> = kernel(x, train_x) of shape \<open>(m, n)\<close>,
  \<open>K**\<close> = kernel(x, x) of shape \<open>(m, m)\<close>, the cached inverse of shape \<open>(n, n)\<close> and the
  training targets of shape \<open>(n, p)\<close>, \<open>posterior_moments\<close> returns exactly the pair
  \<open>(K* \<cdot> K_inv \<cdot> train_y, K** - K* \<cdot> K_inv \<cdot> K*\<^sup>T)\<close> and leaves the regressor as it
  was. The code associates the second product to the right; over a ring that is the
  same matrix.
\<close>

theorem C1_posterior_moments_formula:
  fixes s :: "('a::ring, 'r, 'e) regressor"
  assumes fit: "is_fit s"
    and tx: "train_x s = Some tx" and ty: "train_y s = Some ty" and ki: "k_inv s = Some ki"
    and ks: "kernel s (atleast_2d x) tx = Inr k_star"
    and kss: "kernel s (atleast_2d x) (atleast_2d x) = Inr k_star_star"
    and shapes: "is_mat m n k_star" "is_mat m m k_star_star" "is_mat n n ki" "is_mat n p ty"
    and pos: "0 < m" "0 < n"
  shows "posterior_moments s x =
           (s, Inr (spec_posterior_mean k_star ki ty, spec_posterior_cov k_star_star k_star ki))"
proof -
  note [simp] = and_then_def lib_def not_none_def
  have d1: "np_dot k_star ki = (Inr (mat_mul k_star ki) :: 'e error + 'a mat)"
    using shapes pos by (intro np_dot_mat_mul)
  have m1: "is_mat m n (mat_mul k_star ki)"
    using shapes pos by (intro is_mat_mat_mul)
  have d2: "np_dot (mat_mul k_star ki) ty = (Inr (mat_mul (mat_mul k_star ki) ty) :: 'e error + 'a mat)"
    using m1 shapes pos by (intro np_dot_mat_mul)
  have t: "np_T k_star = mat_T k_star" "is_mat n m (np_T k_star)"
    using np_T_mat_T[OF shapes(1) pos(1)] by simp_all
  have d3: "np_dot ki (np_T k_star) = (Inr (mat_mul ki (mat_T k_star)) :: 'e error + 'a mat)"
    using np_dot_mat_mul[OF shapes(3) t(2) pos(2) pos(2)] t(1) by simp
  have m3: "is_mat n m (mat_mul ki (mat_T k_star))"
    using is_mat_mat_mul[OF shapes(3) t(2) pos(2)] t(1) by simp
  have d4: "np_dot k_star (mat_mul ki (mat_T k_star)) =
              (Inr (mat_mul k_star (mat_mul ki (mat_T k_star))) :: 'e error + 'a mat)"
    using shapes(1) m3 pos by (intro np_dot_mat_mul)
  have assoc: "mat_mul k_star (mat_mul ki (mat_T k_star)) = mat_mul (mat_mul k_star ki) (mat_T k_star)"
    using mat_mul_assoc[OF shapes(1) shapes(3) _ pos(2) pos(2)] t by simp
  have m4: "is_mat m m (mat_mul (mat_mul k_star ki) (mat_T k_star))"
    using is_mat_mat_mul[OF m1 _ pos(2)] t by simp
  have d5: "np_sub k_star_star (mat_mul (mat_mul k_star ki) (mat_T k_star)) =
              (Inr (mat_sub k_star_star (mat_mul (mat_mul k_star ki) (mat_T k_star))) :: 'e error + 'a mat)"
    using shapes(2) m4 pos(1) by (rule np_sub_mat_sub)
  show ?thesis
    unfolding posterior_moments_def Let_def spec_posterior_mean_def spec_posterior_cov_def
    using fit by (simp add: tx ty ki ks kss d1 d2 d3 d4 assoc d5)
qed

theorem C1_posterior_moments_formula_witness:
  "is_fit fitted0 \<and> train_x fitted0 = Some [[1], [2]] \<and> train_y fitted0 = Some [[3], [4]] \<and>
   k_inv fitted0 = Some [[5 / 6, - (1 / 3)], [- (1 / 3), 1 / 3]] \<and>
   kernel fitted0 (atleast_2d (A2 [[1], [3]])) [[1], [2]] = Inr [[1, 2], [3, 6]] \<and>
   kernel fitted0 (atleast_2d (A2 [[1], [3]])) (atleast_2d (A2 [[1], [3]])) = Inr [[1, 3], [3, 9]] \<and>
   is_mat 2 2 [[1, 2], [3, 6 :: real]] \<and> is_mat 2 2 [[1, 3], [3, 9 :: real]] \<and>
   is_mat 2 2 [[5 / 6, - (1 / 3)], [- (1 / 3), 1 / 3 :: real]] \<and> is_mat 2 1 [[3], [4 :: real]] \<and>
   posterior_moments fitted0 (A2 [[1], [3]]) =
     (fitted0, Inr ([[11 / 6], [11 / 2]], [[1 / 6, 1 / 2], [1 / 2, 3 / 2]]))"
proof -
  have h: "is_fit fitted0" "train_x fitted0 = Some [[1], [2]]" "train_y fitted0 = Some [[3], [4]]"
    "k_inv fitted0 = Some [[5 / 6, - (1 / 3)], [- (1 / 3), 1 / 3]]"
    "kernel fitted0 (atleast_2d (A2 [[1], [3]])) [[1], [2]] = Inr [[1, 2], [3, 6]]"
    "kernel fitted0 (atleast_2d (A2 [[1], [3]])) (atleast_2d (A2 [[1], [3]])) = Inr [[1, 3], [3, 9]]"
    by (simp_all add: fitted0_eq linear_kernel_def)
  have sh: "is_mat 2 2 [[1, 2], [3, 6 :: real]]" "is_mat 2 2 [[1, 3], [3, 9 :: real]]"
    "is_mat 2 2 [[5 / 6, - (1 / 3)], [- (1 / 3), 1 / 3 :: real]]" "is_mat 2 1 [[3], [4 :: real]]"
    by (simp_all add: is_mat_def)
  have v: "spec_posterior_mean [[1, 2], [3, 6]] [[5 / 6, - (1 / 3)], [- (1 / 3), 1 / 3 :: real]] [[3], [4]]
             = [[11 / 6], [11 / 2]]"
    "spec_posterior_cov [[1, 3], [3, 9]] [[1, 2], [3, 6]] [[5 / 6, - (1 / 3)], [- (1 / 3), 1 / 3 :: real]]
             = [[1 / 6, 1 / 2], [1 / 2, 3 / 2]]"
    unfolding spec_posterior_mean_def spec_posterior_cov_def mat_mul_eval1
    by (simp_all add: mat_mul_def mat_sub_def mat_T_def nrows_def ncols_def upt_rec)
  show ?thesis
    using C1_posterior_moments_formula[OF h sh] h sh v by simp
qed

subsection \<open>What a fit stores\<close>

lemma bget_mat: "is_mat r c a \<Longrightarrow> i < r \<Longrightarrow> j < c \<Longrightarrow> bget a i j = a ! i ! j"
  using is_mat_ncols[of r c a] is_mat_nrows[of r c a] by (auto simp: bget_def)

lemma broadcast_same:
  assumes "is_mat r c a" "is_mat r c b" "0 < r"
  shows "broadcast f a b = Inr (map (\<lambda>i. map (\<lambda>j. f (a ! i ! j) (b ! i ! j)) [0..<c]) [0..<r])"
  using assms bget_mat[OF assms(1)] bget_mat[OF assms(2)]
  by (simp add: broadcast_def bdim_def is_mat_nrows is_mat_ncols cong: map_cong)

lemma broadcast_row:
  assumes "length v = c" "is_mat r c b" "0 < r"
  shows "broadcast f [v] b = Inr (map (\<lambda>i. map (\<lambda>j. f (v ! j) (b ! i ! j)) [0..<c]) [0..<r])"
proof -
  have "bget [v] i j = v ! j" if "j < c" for i j
    using that assms(1) by (auto simp: bget_def nrows_def ncols_def)
  then show ?thesis
    using assms bget_mat[OF assms(2)]
    by (simp add: broadcast_def bdim_def is_mat_nrows is_mat_ncols nrows_def[of "[v]"] ncols_def[of "[v]"]
        cong: map_cong)
qed

lemma broadcast_scalar:
  assumes "is_mat r c b" "0 < r"
  shows "broadcast f [[a]] b = Inr (map (\<lambda>i. map (\<lambda>j. f a (b ! i ! j)) [0..<c]) [0..<r])"
proof -
  have "bget [[a]] i j = a" for i j
    by (simp add: bget_def nrows_def ncols_def)
  then show ?thesis
    using assms bget_mat[OF assms(1)]
    by (simp add: broadcast_def bdim_def is_mat_nrows is_mat_ncols nrows_def[of "[[a]]"] ncols_def[of "[[a]]"]
        cong: map_cong)
qed

lemma is_mat_eye: "is_mat n n (np_eye n)"
  unfolding np_eye_def by (rule is_mat_mapI)

lemma eye_nth: "i < n \<Longrightarrow> j < n \<Longrightarrow> np_eye n ! i ! j = (if i = j then 1 else 0)"
  by (simp add: np_eye_def)

lemma mat_ext:
  assumes "\<And>i j. i < r \<Longrightarrow> j < c \<Longrightarrow> f i j = g i j"
  shows "map (\<lambda>i. map (f i) [0..<c]) [0..<r] = map (\<lambda>i. map (g i) [0..<c]) [0..<r]"
  using assms by (intro map_cong refl) simp

lemma regularize_spec:
  fixes km :: "'a::semiring_1 mat"
  assumes km: "is_mat n n km" and n: "0 < n" and nl: "valid_noise n nl"
  shows "regularize km nl = Inr (spec_k_train km nl)"
proof -
  have nn: "nrows km = n" "ncols km = n" using km n by (simp_all add: is_mat_nrows is_mat_ncols)
  let ?d = "map (\<lambda>i. map (\<lambda>j. if i = j then noise_sq nl i else 0) [0..<n]) [0..<n]"
  have mul: "np_mul (atleast_2d (nd_map (\<lambda>v. v * v) nl)) (np_eye n) = (Inr ?d :: 'e error + 'a mat)"
  proof (cases nl)
    case (A0 a)
    have "map (\<lambda>i. map (\<lambda>j. a * a * np_eye n ! i ! j) [0..<n]) [0..<n] = ?d"
      using A0 by (intro mat_ext) (simp add: eye_nth)
    with broadcast_scalar[OF is_mat_eye n, of "(*)" "a * a"] A0 show ?thesis
      by (simp add: np_mul_def)
  next
    case (A1 v)
    then have len: "length (map (\<lambda>v. v * v) v) = n" using nl by simp
    have "map (\<lambda>i. map (\<lambda>j. map (\<lambda>v. v * v) v ! j * np_eye n ! i ! j) [0..<n]) [0..<n] = ?d"
      using A1 nl by (intro mat_ext) (simp add: eye_nth)
    with broadcast_row[OF len is_mat_eye n, of "(*)"] A1 show ?thesis
      by (simp add: np_mul_def)
  next
    case (A2 m)
    then show ?thesis using nl by simp
  qed
  have d: "is_mat n n ?d" by (rule is_mat_mapI)
  have "np_add km ?d = (Inr (spec_k_train km nl) :: 'e error + 'a mat)"
  proof -
    have "map (\<lambda>i. map (\<lambda>j. km ! i ! j + ?d ! i ! j) [0..<n]) [0..<n] = spec_k_train km nl"
      unfolding spec_k_train_def nn by (intro mat_ext) simp
    with broadcast_same[OF km d n, of "(+)"] show ?thesis
      by (simp add: np_add_def)
  qed
  then show ?thesis
    by (simp add: regularize_def nn mul and_then_def)
qed


lemma spec_k_train_eval:
  "spec_k_train [[1, 2], [2, 4]] (A1 [1, 2 :: real]) = [[2, 2], [2, 8]]"
  by (simp add: spec_k_train_def nrows_def ncols_def upt_rec)

text \<open>
  Claim C2, as stated, fails where the inversion raises: with two equal training inputs
  and the noise level 0 the kernel matrix is singular, \<open>fit\<close> raises, the flag stays
  unset and no inverse is cached.
\<close>

theorem C2_fit_raises_counterexample:
  "snd (fit toy_numpy unfit0 (A2 [[1], [1]]) (A2 [[3], [4]]) (A0 0)) = Inl (Library LinAlgError) \<and>
   \<not> is_fit (fst (fit toy_numpy unfit0 (A2 [[1], [1]]) (A2 [[3], [4]]) (A0 0))) \<and>
   k_inv (fst (fit toy_numpy unfit0 (A2 [[1], [1]]) (A2 [[3], [4]]) (A0 0))) = None"
  by (simp add: fit_def unfit0_def init_def toy_numpy_def linear_kernel_def lib_def and_then_def
      small_inv_def regularize_def np_mul_def np_add_def broadcast_def bdim_def bget_def
      nrows_def ncols_def np_eye_def upt_rec)

text \<open>
  Claim C2, amended. When the kernel returns an \<open>n \<times> n\<close> matrix for the training inputs,
  the noise level is a scalar or a flat array of \<open>n\<close> values, and the inversion of
  \<open>K_train\<close> returns, \<open>fit\<close> stores the inputs, the targets and the noise level, stores
  \<open>K_train\<close> (the kernel matrix with the squared noise level added on the diagonal) and
  the inverse the inversion returned, and sets the flag; whatever an earlier \<open>fit\<close> had
  stored is replaced, so the outcome is the same as without the earlier call.
\<close>

theorem C2_fit_effect:
  fixes np :: "('a::semiring_1, 'r, 'g, 'e) numpy"
  assumes kern: "kernel s (atleast_2d x) (atleast_2d x) = Inr km"
    and km: "is_mat n n km" and n: "0 < n" and nl: "valid_noise n nl"
    and inv: "linalg_inv np (spec_k_train km nl) = Inr ki"
  shows "fit np s x y nl =
           (s\<lparr>train_x := Some (atleast_2d x), train_y := Some (atleast_2d y),
              noise_level := Some nl, k := Some (spec_k_train km nl), k_inv := Some ki,
              is_fit := True\<rparr>, Inr ()) \<and>
         fit np (fst (fit np s x' y' nl')) x y nl = fit np s x y nl"
proof -
  have reg: "regularize km nl = (Inr (spec_k_train km nl) :: 'e error + 'a mat)"
    using km n nl by (rule regularize_spec)
  have kern': "kernel (fst (fit np s x' y' nl')) = kernel s"
    by (simp add: fit_def Let_def split: sum.splits)
  have a: "fit np t x y nl =
           (t\<lparr>train_x := Some (atleast_2d x), train_y := Some (atleast_2d y),
              noise_level := Some nl, k := Some (spec_k_train km nl), k_inv := Some ki,
              is_fit := True\<rparr>, Inr ())" if "kernel t = kernel s" for t
    using that kern reg inv by (simp add: fit_def Let_def lib_def and_then_def)
  have b: "fst (fit np s x' y' nl')
             \<lparr>train_x := tx, train_y := ty, noise_level := nv, k := kv, k_inv := kiv, is_fit := b\<rparr>
           = s\<lparr>train_x := tx, train_y := ty, noise_level := nv, k := kv, k_inv := kiv, is_fit := b\<rparr>"
    for tx ty nv kv kiv b
    by (simp add: fit_def Let_def split: sum.splits)
  show ?thesis
    using a[of s] a[OF kern'] b by simp
qed

theorem C2_fit_effect_witness:
  "kernel unfit0 (atleast_2d (A2 [[1], [2]])) (atleast_2d (A2 [[1], [2]])) = Inr [[1, 2], [2, 4]] \<and>
   is_mat 2 2 [[1, 2], [2, 4 :: real]] \<and> valid_noise 2 (A1 [1, 2 :: real]) \<and>
   linalg_inv toy_numpy (spec_k_train [[1, 2], [2, 4]] (A1 [1, 2])) =
     Inr [[2 / 3, - (1 / 6)], [- (1 / 6), 1 / 6]] \<and>
   fit toy_numpy unfit0 (A2 [[1], [2]]) (A2 [[3], [4]]) (A1 [1, 2]) =
     (unfit0\<lparr>train_x := Some [[1], [2]], train_y := Some [[3], [4]],
        noise_level := Some (A1 [1, 2]), k := Some [[2, 2], [2, 8]],
        k_inv := Some [[2 / 3, - (1 / 6)], [- (1 / 6), 1 / 6]], is_fit := True\<rparr>, Inr ()) \<and>
   fit toy_numpy (fst (fit toy_numpy unfit0 (A2 [[7]]) (A1 [8]) (A0 9)))
       (A2 [[1], [2]]) (A2 [[3], [4]]) (A1 [1, 2]) =
     fit toy_numpy unfit0 (A2 [[1], [2]]) (A2 [[3], [4]]) (A1 [1, 2])"
proof -
  have h1: "kernel unfit0 (atleast_2d (A2 [[1], [2]])) (atleast_2d (A2 [[1], [2]])) = Inr [[1, 2], [2, 4]]"
    by (simp add: unfit0_def init_def linear_kernel_def)
  have h2: "is_mat 2 2 [[1, 2], [2, 4 :: real]]" by (simp add: is_mat_def)
  have h3: "0 < (2::nat)" by simp
  have h4: "valid_noise 2 (A1 [1, 2 :: real])" by simp
  have h5: "linalg_inv toy_numpy (spec_k_train [[1, 2], [2, 4]] (A1 [1, 2])) =
     Inr [[2 / 3, - (1 / 6)], [- (1 / 6), 1 / 6]]"
    by (simp add: spec_k_train_eval toy_numpy_def small_inv_def)
  show ?thesis
    using C2_fit_effect[OF h1 h2 h3 h4 h5, of "A2 [[3], [4]]" "A2 [[7]]" "A1 [8]" "A0 9"] h1 h2 h4 h5
    by (simp add: spec_k_train_eval)
qed

subsection \<open>Sampling the posterior\<close>

lemma np_add_perturbed:
  fixes c :: "'a::{zero,plus,times} mat"
  assumes c: "is_mat n n c" and n: "0 < n" and z: "length z = n"
  shows "np_add c (scale reg (diag_of_vec z)) = Inr (spec_perturbed_cov c reg z)"
proof -
  have d: "scale reg (diag_of_vec z) =
           map (\<lambda>i. map (\<lambda>j. reg * (if i = j then z ! i else 0)) [0..<n]) [0..<n]"
    by (simp add: scale_def diag_of_vec_def z comp_def)
  have dm: "is_mat n n (scale reg (diag_of_vec z))"
    unfolding d by (rule is_mat_mapI)
  have "map (\<lambda>i. map (\<lambda>j. c ! i ! j + scale reg (diag_of_vec z) ! i ! j) [0..<n]) [0..<n] =
        spec_perturbed_cov c reg z"
    unfolding spec_perturbed_cov_def is_mat_nrows[OF c] is_mat_ncols[OF c n]
    by (intro mat_ext) (simp add: d)
  with broadcast_same[OF c dm n, of "(+)"] show ?thesis
    by (simp add: np_add_def)
qed

lemma spec_perturbed_cov_eval:
  "spec_perturbed_cov [[1 / 6, 1 / 2], [1 / 2, 3 / 2]] 1 [7, 8 :: real] = [[43 / 6, 1 / 2], [1 / 2, 19 / 2]]"
  by (simp add: spec_perturbed_cov_def nrows_def ncols_def upt_rec)

text \<open>
  On a fitted regressor whose \<open>posterior_moments\<close> returns a mean and an
  \<open>n \<times> n\<close> covariance, \<open>sample_posterior\<close> draws \<open>n\<close> values \<open>z\<close> with \<^verbatim>\<open>randn\<close>, adds
  \<open>reg\<close> times the diagonal matrix of \<open>z\<close> to the covariance (so the amount added at the
  point \<open>i\<close> is \<open>reg * z\<^sub>i\<close>, not the constant \<open>reg\<close>), hands the squeezed mean, the
  perturbed covariance and \<open>size\<close> to the sampler of the regressor's random source, and
  returns the transposed draws, with the square roots of the diagonal of the perturbed
  covariance when \<open>return_std\<close> is set, provided the sampler returns.
\<close>

lemma sample_posterior_result:
  fixes np :: "('a::{zero,plus,minus,times}, 'r, 'g, 'e) numpy"
  assumes fit: "is_fit s"
    and pm: "posterior_moments s x = (s, Inr (pmean, pcov))"
    and sq: "is_mat n n pcov" "0 < n"
    and rn: "randn np g n = (g', z)" "length z = n"
    and mv: "multivariate_normal np (random_state s) (squeeze pmean)
               (spec_perturbed_cov pcov reg z) size0 = (r', Inr draws)"
  shows "sample_posterior np s g x size0 return_std reg =
           ((s\<lparr>random_state := r'\<rparr>, g'),
            Inr (np_T draws,
                 if return_std
                 then Some (map (\<lambda>i. np_sqrt np (spec_perturbed_cov pcov reg z ! i ! i)) [0..<n])
                 else None))"
proof -
  have cov: "np_add pcov (scale reg (diag_of_vec z)) =
             (Inr (spec_perturbed_cov pcov reg z) :: 'e error + 'a mat)"
    using sq rn(2) by (rule np_add_perturbed)
  have pc: "is_mat n n (spec_perturbed_cov pcov reg z)"
    unfolding spec_perturbed_cov_def is_mat_nrows[OF sq(1)] is_mat_ncols[OF sq]
    by (rule is_mat_mapI)
  have dg: "diag_of_mat (spec_perturbed_cov pcov reg z) =
            map (\<lambda>i. spec_perturbed_cov pcov reg z ! i ! i) [0..<n]"
    by (simp add: diag_of_mat_def is_mat_nrows[OF pc] is_mat_ncols[OF pc sq(2)])
  show ?thesis
    using fit
    by (simp add: sample_posterior_def pm is_mat_nrows[OF sq(1)] rn(1) cov sample_def mv
        lib_def and_then_def dg comp_def)
qed

lemma sample_posterior_result_example:
  "is_fit (fitted0\<lparr>random_state := 1\<rparr>) \<and>
   is_mat 2 2 [[1 / 6, 1 / 2], [1 / 2, 3 / 2 :: real]] \<and>
   randn toy_numpy 7 2 = (9, [7, 8]) \<and>
   multivariate_normal toy_numpy 1 (squeeze [[11 / 6], [11 / 2]])
     (spec_perturbed_cov [[1 / 6, 1 / 2], [1 / 2, 3 / 2]] 1 [7, 8]) 3 =
     (2, Inr [[9, 15], [9, 15], [9, 15]]) \<and>
   sample_posterior toy_numpy (fitted0\<lparr>random_state := 1\<rparr>) 7 (A2 [[1], [3]]) 3 True 1 =
     ((fitted0\<lparr>random_state := 2\<rparr>, 9),
      Inr ([[9, 9, 9], [15, 15, 15]], Some [sqrt (43 / 6), sqrt (19 / 2)]))"
proof -
  have h1: "is_fit (fitted0\<lparr>random_state := 1\<rparr>)" by (simp add: fitted0_eq)
  have h2: "is_mat 2 2 [[1 / 6, 1 / 2], [1 / 2, 3 / 2 :: real]]" by (simp add: is_mat_def)
  have h3: "randn toy_numpy 7 2 = (9, [7, 8])" "length [7, 8 :: real] = 2"
    by (simp_all add: toy_numpy_def toy_randn_def upt_rec)
  have h4: "multivariate_normal toy_numpy (random_state (fitted0\<lparr>random_state := 1\<rparr>))
     (squeeze [[11 / 6], [11 / 2]])
     (spec_perturbed_cov [[1 / 6, 1 / 2], [1 / 2, 3 / 2]] 1 [7, 8]) 3 =
     (2, Inr [[9, 15], [9, 15], [9, 15]])"
    by (simp add: spec_perturbed_cov_eval toy_numpy_def toy_mvn_def squeeze_def nrows_def ncols_def
        is_mat_def diag_of_mat_def upt_rec numeral_3_eq_3)
  have T: "np_T [[9, 15], [9, 15], [9, 15 :: real]] = [[9, 9, 9], [15, 15, 15]]"
    by (simp add: np_T_def ncols_def upt_rec)
  show ?thesis
    using sample_posterior_result[OF h1 posterior_moments_fitted0 h2 _ h3 h4, of True] h1 h2 h3 h4
    by (simp add: T spec_perturbed_cov_eval toy_numpy_def upt_rec)
qed

lemma posterior_moments_fitted0_point:
  "posterior_moments fitted0 (A2 [[1]]) = (fitted0, Inr ([[11 / 6]], [[1 / 6]]))"
  by (simp add: posterior_moments_def fitted0_eq Let_def and_then_def lib_def not_none_def
      linear_kernel_def np_dot_def np_T_def np_sub_def broadcast_def bdim_def bget_def inner_def
      column_def nrows_def ncols_def upt_rec)

text \<open>
  Claim C4. The mean handed to the sampler is \<^verbatim>\<open>posterior_mean.squeeze()\<close>. For one
  evaluation point the posterior mean has shape \<open>(1, 1)\<close> and its squeeze has rank 0, which
  the sampler rejects: on a regressor fitted to two points, \<open>posterior_moments\<close> and
  \<open>predict\<close> return at the single point \<open>[[1]]\<close>, while \<open>sample_posterior\<close> raises after it
  has drawn the jitter and returns no sample.
\<close>

theorem C4_single_point_mean_rank0:
  "squeeze [[a]] = A0 a \<and>
   posterior_moments fitted0 (A2 [[1]]) = (fitted0, Inr ([[11 / 6]], [[1 / 6]])) \<and>
   predict toy_numpy fitted0 (A2 [[1]]) False = (fitted0, Inr ([[11 / 6]], None)) \<and>
   sample_posterior toy_numpy fitted0 7 (A2 [[1]]) 1 False 1 =
     ((fitted0, 8), Inl (Library ValueError_lib))"
proof -
  have sq: "squeeze [[a]] = A0 a" for a :: 'b
    by (simp add: squeeze_def nrows_def ncols_def)
  have f: "is_fit fitted0" by (simp add: fitted0_eq)
  have m: "is_mat 1 1 [[1 / 6 :: real]]" by (simp add: is_mat_def)
  have add: "np_add [[1 / 6]] (scale 1 (diag_of_vec [7 :: real])) =
        (Inr [[43 / 6]] :: lib_error error + real mat)"
    using np_add_perturbed[OF m, of "[7]" 1]
    by (simp add: spec_perturbed_cov_def nrows_def ncols_def)
  have rn: "randn toy_numpy 7 (nrows [[1 / 6 :: real]]) = (8, [7])"
    by (simp add: toy_numpy_def toy_randn_def nrows_def)
  have smp: "sample toy_numpy fitted0 (A0 (11 / 6)) [[43 / 6]] 1 =
             (fitted0, Inl (Library ValueError_lib))"
    by (simp add: sample_def toy_numpy_def toy_mvn_def lib_def and_then_def fitted0_eq)
  have sp: "sample_posterior toy_numpy fitted0 7 (A2 [[1]]) 1 False 1 =
     ((fitted0, 8), Inl (Library ValueError_lib))"
    using f by (simp add: sample_posterior_def posterior_moments_fitted0_point rn add sq smp)
  have pr: "predict toy_numpy fitted0 (A2 [[1]]) False = (fitted0, Inr ([[11 / 6]], None))"
    using f by (simp add: predict_def posterior_moments_fitted0_point)
  show ?thesis using sq sp pr posterior_moments_fitted0_point by simp
qed

subsection \<open>Flat inputs\<close>

text \<open>
  Claim C6. \<^verbatim>\<open>np.atleast_2d\<close> turns a flat array of \<open>n\<close> points into one row of shape
  \<open>(1, n)\<close>, not into a column, and that row is what \<open>fit\<close> stores, whatever happens
  later in the call: fitting the flat inputs \<open>[1, 2]\<close> and \<open>[3, 4]\<close> stores the
  training set as the rows \<open>[[1, 2]]\<close> and \<open>[[3, 4]]\<close>, and \<open>posterior_moments\<close> on that
  regressor then fails in \<^verbatim>\<open>np.dot\<close> on the shapes.
\<close>

theorem C6_flat_input_stored_as_row:
  "train_x (fst (fit np s (A1 xs) (A1 ys) nl)) = Some [xs] \<and>
   train_y (fst (fit np s (A1 xs) (A1 ys) nl)) = Some [ys] \<and>
   fit toy_numpy unfit0 (A1 [1, 2]) (A1 [3, 4]) (A0 1) =
     (unfit0\<lparr>train_x := Some [[1, 2]], train_y := Some [[3, 4]], noise_level := Some (A0 1),
        k := Some [[2, 2], [2, 5]],
        k_inv := Some [[5 / 6, - (1 / 3)], [- (1 / 3), 1 / 3]], is_fit := True\<rparr>, Inr ()) \<and>
   is_mat 1 2 (atleast_2d (A1 [1, 2 :: real])) \<and> \<not> is_mat 2 1 (atleast_2d (A1 [1, 2 :: real])) \<and>
   snd (posterior_moments (fst (fit toy_numpy unfit0 (A1 [1, 2]) (A1 [3, 4]) (A0 1))) (A1 [1, 3]))
     = Inl ValueError_shapes"
proof -
  have g: "train_x (fst (fit np s (A1 xs) (A1 ys) nl)) = Some [xs]"
    "train_y (fst (fit np s (A1 xs) (A1 ys) nl)) = Some [ys]"
    by (simp_all add: fit_def Let_def split: sum.splits)
  have f: "fit toy_numpy unfit0 (A1 [1, 2]) (A1 [3, 4]) (A0 1) =
     (unfit0\<lparr>train_x := Some [[1, 2]], train_y := Some [[3, 4]], noise_level := Some (A0 1),
        k := Some [[2, 2], [2, 5]],
        k_inv := Some [[5 / 6, - (1 / 3)], [- (1 / 3), 1 / 3]], is_fit := True\<rparr>, Inr ())"
    by (simp add: fit_def unfit0_def init_def toy_numpy_def linear_kernel_def lib_def and_then_def
        regularize_eval small_inv_def)
  have p: "snd (posterior_moments
       (unfit0\<lparr>train_x := Some [[1, 2]], train_y := Some [[3, 4]], noise_level := Some (A0 1),
        k := Some [[2, 2], [2, 5]],
        k_inv := Some [[5 / 6, - (1 / 3)], [- (1 / 3), 1 / 3]], is_fit := True\<rparr>) (A1 [1, 3]))
     = Inl ValueError_shapes"
    by (simp add: posterior_moments_def unfit0_def init_def Let_def and_then_def lib_def not_none_def
        linear_kernel_def np_dot_def nrows_def ncols_def)
  show ?thesis
    unfolding f using g p by (simp add: is_mat_def)
qed

text \<open>
  Claim C7. The prior mean is built from the first axis of the coerced array, which for
  a flat input has length 1 however many points there are. For the flat input
  \<open>[1, 2, 3]\<close> the sampler is handed the mean \<open>[0]\<close> together with a \<open>3 \<times> 3\<close>
  covariance and rejects them, so \<open>sample_prior\<close> raises instead of returning a
  \<open>3 \<times> 5\<close> matrix.
\<close>

theorem C7_flat_input_mean_length:
  "zero_prior_mean (atleast_2d (A1 xs)) = [0] \<and>
   kernel unfit0 (atleast_2d (A1 [1, 2, 3])) (atleast_2d (A1 [1, 2, 3]))
     = Inr [[1, 2, 3], [2, 4, 6], [3, 6, 9]] \<and>
   sample_prior toy_numpy unfit0 (A1 [1, 2, 3]) 5 False = (unfit0, Inl (Library ValueError_lib))"
  by (simp add: sample_prior_def sample_def zero_prior_mean_def np_zeros_def nrows_def unfit0_def
      init_def linear_kernel_def lib_def and_then_def toy_numpy_def toy_mvn_def is_mat_def Let_def)

subsection \<open>Where the jitter comes from\<close>

lemma spec_perturbed_cov_eval0:
  "spec_perturbed_cov [[1 / 6, 1 / 2], [1 / 2, 3 / 2]] 1 [0, 1 :: real] = [[1 / 6, 1 / 2], [1 / 2, 5 / 2]]"
  by (simp add: spec_perturbed_cov_def nrows_def ncols_def upt_rec)

lemma sample_posterior_fitted0:
  assumes "toy_randn g 2 = (g', z)" and "length z = 2"
    and "spec_perturbed_cov [[1 / 6, 1 / 2], [1 / 2, 3 / 2]] 1 z = [[a, b], [c, d]]"
  shows "sample_posterior toy_numpy (fitted0\<lparr>random_state := 2\<rparr>) g (A2 [[1], [3]]) 1 False 1 =
    ((fitted0\<lparr>random_state := 3\<rparr>, g'), Inr ([[11 / 6 + 2 * a], [11 / 2 + 2 * d]], None))"
proof -
  have m: "is_mat 2 2 [[1 / 6, 1 / 2], [1 / 2, 3 / 2 :: real]]" by (simp add: is_mat_def)
  have f: "is_fit (fitted0\<lparr>random_state := 2\<rparr>)" by (simp add: fitted0_eq)
  have add: "np_add [[1 / 6, 1 / 2], [1 / 2, 3 / 2]] (scale 1 (diag_of_vec z)) =
        (Inr [[a, b], [c, d]] :: lib_error error + real mat)"
    using np_add_perturbed[OF m _ assms(2), of 1] assms(3) by simp
  have rn: "randn toy_numpy g (nrows [[1 / 6, 1 / 2], [1 / 2, 3 / 2 :: real]]) = (g', z)"
    using assms(1) by (simp add: toy_numpy_def nrows_def numeral_2_eq_2)
  have smp: "sample toy_numpy (fitted0\<lparr>random_state := 2\<rparr>) (squeeze [[11 / 6], [11 / 2]])
               [[a, b], [c, d]] 1 =
             (fitted0\<lparr>random_state := 3\<rparr>, Inr [[11 / 6 + 2 * a], [11 / 2 + 2 * d]])"
    by (simp add: sample_def toy_numpy_def toy_mvn_def squeeze_def nrows_def ncols_def is_mat_def
        lib_def and_then_def diag_of_mat_def np_T_def upt_rec)
  show ?thesis
    using f by (simp add: sample_posterior_def posterior_moments_fitted0 rn add smp)
qed

text \<open>
  Claim C5. The jitter of \<open>sample_posterior\<close> is drawn with \<^verbatim>\<open>np.random.randn\<close>, from numpy's
  process-wide generator and not from the regressor's own random source: the same
  regressor with the same state of its random source, called with the same arguments,
  returns different samples when the process-wide generator is in a different state.
\<close>

theorem C5_jitter_from_global_generator:
  "sample_posterior toy_numpy (fitted0\<lparr>random_state := 2\<rparr>) 0 (A2 [[1], [3]]) 1 False 1 =
     ((fitted0\<lparr>random_state := 3\<rparr>, 2), Inr ([[13 / 6], [21 / 2]], None)) \<and>
   sample_posterior toy_numpy (fitted0\<lparr>random_state := 2\<rparr>) 7 (A2 [[1], [3]]) 1 False 1 =
     ((fitted0\<lparr>random_state := 3\<rparr>, 9), Inr ([[97 / 6], [49 / 2]], None))"
proof -
  have r0: "toy_randn 0 2 = (2, [0, 1])" and r7: "toy_randn 7 2 = (9, [7, 8])"
    by (simp_all add: toy_randn_def upt_rec)
  show ?thesis
    using sample_posterior_fitted0[OF r0 _ spec_perturbed_cov_eval0]
      sample_posterior_fitted0[OF r7 _ spec_perturbed_cov_eval]
    by simp
qed

subsection \<open>The flag and the cached inverse over sequences of calls\<close>

lemma fit_returns_consistent:
  "snd (fit np s x y nl) = Inr () \<Longrightarrow> consistent np (fst (fit np s x y nl))"
  by (auto simp: fit_def Let_def consistent_def lib_def and_then_def split: sum.splits)

lemma training_of_consistent:
  "training_of s' = training_of s \<Longrightarrow> consistent np s' = consistent np s"
  by (auto simp: consistent_def training_of_def split: option.splits prod.splits)

lemma training_of_is_fit: "training_of s' = training_of s \<Longrightarrow> is_fit s' = is_fit s"
  by (simp add: training_of_def)

lemma sample_training: "sample np s mean cov n = (s', r) \<Longrightarrow> training_of s' = training_of s"
  by (auto simp: sample_def training_of_def split: prod.splits)

lemma sample_prior_training: "training_of (fst (sample_prior np s x n rs)) = training_of s"
  by (auto simp: sample_prior_def Let_def split: sum.splits prod.splits dest: sample_training)

lemma posterior_moments_training: "posterior_moments s x = (s', r) \<Longrightarrow> training_of s' = training_of s"
  using posterior_moments_state[of s x] by simp

lemma predict_training: "training_of (fst (predict np s x rs)) = training_of s"
  by (auto simp: predict_def split: sum.splits prod.splits dest: posterior_moments_training)

lemma sample_posterior_training:
  "training_of (fst (fst (sample_posterior np s g x n rs reg))) = training_of s"
  by (auto simp: sample_posterior_def split: sum.splits prod.splits
      dest!: posterior_moments_training sample_training)

lemma step_not_fit_training:
  "\<not> is_Fit c \<Longrightarrow> training_of (fst (fst (step np st c))) = training_of (fst st)"
proof (cases st)
  case (Pair s g)
  assume nf: "\<not> is_Fit c"
  show ?thesis
  proof (cases c)
    case (Fit x y nl)
    with nf show ?thesis by simp
  next
    case (Sample_prior x n rs)
    then show ?thesis using Pair sample_prior_training[of np s x n rs]
      by (simp add: split_beta)
  next
    case (Posterior_moments x)
    then show ?thesis using Pair posterior_moments_state[of s x]
      by (simp add: split_beta)
  next
    case (Sample_posterior x n rs reg)
    then show ?thesis using Pair sample_posterior_training[of np s g x n rs reg]
      by (simp add: split_beta)
  next
    case (Predict x rs)
    then show ?thesis using Pair predict_training[of np s x rs]
      by (simp add: split_beta)
  qed
qed

lemma step_flag:
  "is_fit (fst (fst (step np st c))) = (is_fit (fst st) \<or> (is_Fit c \<and> snd (step np st c)))"
proof (cases "is_Fit c")
  case False
  then show ?thesis
    using training_of_is_fit[OF step_not_fit_training[of c np st]] by simp
next
  case True
  then obtain x y nl where c: "c = Fit x y nl" by (cases c) auto
  obtain s g where st: "st = (s, g)" by (cases st)
  have "snd (step np st c) = (snd (fit np s x y nl) = Inr ())"
    unfolding c st by (cases "snd (fit np s x y nl)") (auto simp: returned_def split: prod.splits)
  then show ?thesis
    using fit_flag[of np s x y nl] unfolding c st by (auto split: prod.splits)
qed

lemma run_flag:
  "is_fit (fst (run np st cs)) = (is_fit (fst st) \<or> some_fit_returned np st cs)"
  by (induction cs arbitrary: st) (auto simp: step_flag)

lemma run_append: "run np st (cs @ ds) = run np (run np st cs) ds"
  by (induction cs arbitrary: st) auto

lemma step_consistent:
  assumes inv: "is_fit (fst st) \<longrightarrow> consistent np (fst st)"
    and ok: "\<not> (is_Fit c \<and> is_fit (fst st) \<and> \<not> snd (step np st c))"
  shows "is_fit (fst (fst (step np st c))) \<longrightarrow> consistent np (fst (fst (step np st c)))"
proof (cases "is_Fit c")
  case False
  then show ?thesis
    using training_of_is_fit[OF step_not_fit_training[of c np st]]
      training_of_consistent[OF step_not_fit_training[of c np st], of np] inv by simp
next
  case True
  then obtain x y nl where c: "c = Fit x y nl" by (cases c) auto
  obtain s g where st: "st = (s, g)" by (cases st)
  have ret: "snd (step np st c) = (snd (fit np s x y nl) = Inr ())"
    unfolding c st by (cases "snd (fit np s x y nl)") (auto simp: returned_def split: prod.splits)
  have fs: "fst (fst (step np st c)) = fst (fit np s x y nl)"
    unfolding c st by (auto split: prod.splits)
  show ?thesis
  proof (cases "snd (fit np s x y nl) = Inr ()")
    case True
    then show ?thesis using fit_returns_consistent[of np s x y nl] fs by simp
  next
    case False
    then have "\<not> is_fit s" using ok ret True st c by auto
    then have "\<not> is_fit (fst (fit np s x y nl))" using fit_flag[of np s x y nl] False by simp
    then show ?thesis using fs by simp
  qed
qed

lemma run_consistent:
  "(is_fit (fst st) \<longrightarrow> consistent np (fst st)) \<Longrightarrow> no_failed_refit np st cs \<Longrightarrow>
     is_fit (fst (run np st cs)) \<longrightarrow> consistent np (fst (run np st cs))"
proof (induction cs arbitrary: st)
  case Nil
  then show ?case by simp
next
  case (Cons c cs)
  have "is_fit (fst (fst (step np st c))) \<longrightarrow> consistent np (fst (fst (step np st c)))"
    using Cons.prems by (intro step_consistent) auto
  moreover have "no_failed_refit np (fst (step np st c)) cs" using Cons.prems by simp
  ultimately show ?case using Cons.IH by simp
qed


lemma init_invariant: "is_fit (init np kern rs) \<longrightarrow> consistent np (init np kern rs)"
  by (simp add: init_def)

lemma predict_unfit0: "predict toy_numpy unfit0 x rs = (unfit0, Inl ValueError_not_fit)"
  by (simp add: predict_def unfit0_def init_def)

lemma fitted0_unfit0:
  "unfit0\<lparr>train_x := Some [[1], [2]], train_y := Some [[3], [4]], noise_level := Some (A0 1),
          k := Some [[2, 2], [2, 5]],
          k_inv := Some [[5 / 6, - (1 / 3)], [- (1 / 3), 1 / 3]], is_fit := True\<rparr> = fitted0"
  by (simp add: fitted0_def fit_unfit0)

lemma refit_fitted0_singular:
  "fit toy_numpy fitted0 (A2 [[1], [1]]) (A2 [[3], [4]]) (A0 0) =
     (fitted0\<lparr>train_x := Some [[1], [1]], train_y := Some [[3], [4]], noise_level := Some (A0 0),
              k := Some [[1, 1], [1, 1]]\<rparr>, Inl (Library LinAlgError))"
  by (simp add: fit_def fitted0_eq toy_numpy_def linear_kernel_def lib_def and_then_def
      small_inv_def regularize_def np_mul_def np_add_def broadcast_def bdim_def bget_def
      nrows_def ncols_def np_eye_def upt_rec)

text \<open>
  Claim C9, as stated, fails when a \<open>fit\<close> raises on a regressor that is already fit: the
  failed call has replaced the training inputs, the flag is still set, and the cached
  inverse is the one of the earlier training set.
\<close>

theorem C9_stale_inverse_counterexample:
  "is_fit (fst (run toy_numpy (unfit0, 0)
      [Fit (A2 [[1], [2]]) (A2 [[3], [4]]) (A0 1), Fit (A2 [[1], [1]]) (A2 [[3], [4]]) (A0 0)])) \<and>
   train_x (fst (run toy_numpy (unfit0, 0)
      [Fit (A2 [[1], [2]]) (A2 [[3], [4]]) (A0 1), Fit (A2 [[1], [1]]) (A2 [[3], [4]]) (A0 0)]))
     = Some [[1], [1]] \<and>
   k_inv (fst (run toy_numpy (unfit0, 0)
      [Fit (A2 [[1], [2]]) (A2 [[3], [4]]) (A0 1), Fit (A2 [[1], [1]]) (A2 [[3], [4]]) (A0 0)]))
     = Some [[5 / 6, - (1 / 3)], [- (1 / 3), 1 / 3]] \<and>
   \<not> consistent toy_numpy (fst (run toy_numpy (unfit0, 0)
      [Fit (A2 [[1], [2]]) (A2 [[3], [4]]) (A0 1), Fit (A2 [[1], [1]]) (A2 [[3], [4]]) (A0 0)]))"
proof -
  have r: "run toy_numpy (unfit0, 0)
      [Fit (A2 [[1], [2]]) (A2 [[3], [4]]) (A0 1), Fit (A2 [[1], [1]]) (A2 [[3], [4]]) (A0 0)] =
    (fitted0\<lparr>train_x := Some [[1], [1]], train_y := Some [[3], [4]], noise_level := Some (A0 0),
              k := Some [[1, 1], [1, 1]]\<rparr>, 0)"
    by (simp add: fit_unfit0 fitted0_unfit0 refit_fitted0_singular)
  have reg: "(regularize [[1, 1], [1, 1]] (A0 (0::real)) :: lib_error error + real mat) = Inr [[1, 1], [1, 1]]"
    by (simp add: regularize_def and_then_def np_mul_def np_add_def broadcast_def bdim_def bget_def
        nrows_def ncols_def np_eye_def upt_rec)
  show ?thesis
    unfolding r
    by (simp add: fitted0_eq consistent_def linear_kernel_def lib_def and_then_def reg toy_numpy_def
        small_inv_def)
qed

lemma fit_raises_inconsistent:
  fixes np :: "('a::{zero,one,plus,times}, 'r, 'g, 'e) numpy"
  assumes "snd (fit np s x y nl) = Inl e"
  shows "\<not> consistent np (fst (fit np s x y nl))"
proof (cases "and_then (lib (kernel s (atleast_2d x) (atleast_2d x))) (\<lambda>km. regularize km nl)
                :: 'e error + 'a mat")
  case (Inl e')
  then show ?thesis by (auto simp: fit_def Let_def consistent_def split: option.splits)
next
  case (Inr kt)
  then show ?thesis
    using assms
    by (cases "linalg_inv np kt")
      (auto simp: fit_def Let_def consistent_def lib_def split: option.splits)
qed

lemma step_fit_returned:
  "snd (step np (s, g) (Fit x y nl)) = (snd (fit np s x y nl) = Inr ())"
  by (cases "snd (fit np s x y nl)") (auto simp: returned_def split: prod.splits)

lemma step_fit_state: "fst (fst (step np (s, g) (Fit x y nl))) = fst (fit np s x y nl)"
  by (simp add: split_beta)

lemma step_fit_consistent:
  "consistent np (fst (fst (step np st (Fit x y nl)))) = snd (step np st (Fit x y nl))"
proof (cases st)
  case (Pair s g)
  show ?thesis
  proof (cases "snd (fit np s x y nl)")
    case (Inl e)
    then show ?thesis
      using fit_raises_inconsistent[OF Inl] unfolding Pair step_fit_returned step_fit_state by simp
  next
    case (Inr u)
    then show ?thesis
      using fit_returns_consistent[of np s x y nl] unfolding Pair step_fit_returned step_fit_state
      by simp
  qed
qed

lemma run_last_fit:
  "consistent np (fst (run np st cs)) = last_fit_returned np st cs (consistent np (fst st))"
proof (induction cs arbitrary: st)
  case Nil
  show ?case by simp
next
  case (Cons c cs)
  show ?case
  proof (cases "is_Fit c")
    case True
    then obtain x y nl where c: "c = Fit x y nl" by (cases c) auto
    show ?thesis using Cons.IH[of "fst (step np st c)"] step_fit_consistent[of np st x y nl]
      by (simp add: c)
  next
    case False
    then show ?thesis
      using Cons.IH[of "fst (step np st c)"]
        training_of_consistent[OF step_not_fit_training[OF False, of np st], of np]
      by simp
  qed
qed

lemma init_inconsistent: "\<not> consistent np (init np kern rs)"
  by (simp add: consistent_def init_def)

lemma fit_linear_vector_noise:
  assumes "kernel s = linear_kernel"
  shows "fit toy_numpy s (A2 [[1], [2]]) (A2 [[3], [4]]) (A1 [1, 2]) =
     (s\<lparr>train_x := Some [[1], [2]], train_y := Some [[3], [4]], noise_level := Some (A1 [1, 2]),
        k := Some [[2, 2], [2, 8]],
        k_inv := Some [[2 / 3, - (1 / 6)], [- (1 / 6), 1 / 6]], is_fit := True\<rparr>, Inr ())"
proof -
  have m: "is_mat 2 2 [[1, 2], [2, 4 :: real]]" by (simp add: is_mat_def)
  have reg: "(regularize [[1, 2], [2, 4]] (A1 [1, 2 :: real]) :: lib_error error + real mat) =
             Inr [[2, 2], [2, 8]]"
    using regularize_spec[OF m, of "A1 [1, 2]"] by (simp add: spec_k_train_eval)
  show ?thesis
    by (simp add: fit_def Let_def assms linear_kernel_def lib_def and_then_def reg toy_numpy_def
        small_inv_def)
qed

text \<open>
  Claim C9, amended. Starting from a new regressor and over every sequence of calls, the
  flag is set exactly when some \<open>fit\<close> of the sequence has returned, and once set it stays
  set whatever calls follow. Every \<open>fit\<close> that returns leaves a cached inverse that is
  consistent with the stored training set, whatever came before it, and every \<open>fit\<close>
  that raises leaves one that is not; the other calls change neither. So the cached
  inverse is consistent with the stored training set exactly when the most recent \<open>fit\<close>
  returned, in particular whenever the flag is set and no \<open>fit\<close> has raised on an
  already fitted regressor; and a consistent inverse comes with a set flag.
\<close>

theorem C9_flag_and_cached_inverse:
  fixes np :: "('a::{zero,one,plus,minus,times}, 'r, 'g, 'e) numpy"
  shows
  "is_fit (fst (run np (init np kern rs, g) cs)) = some_fit_returned np (init np kern rs, g) cs \<and>
   (is_fit (fst (run np st cs)) \<longrightarrow> is_fit (fst (run np st (cs @ ds)))) \<and>
   (no_failed_refit np (init np kern rs, g) cs \<longrightarrow>
      is_fit (fst (run np (init np kern rs, g) cs)) \<longrightarrow>
      consistent np (fst (run np (init np kern rs, g) cs))) \<and>
   consistent np (fst (fst (step np st (Fit x y nl)))) = snd (step np st (Fit x y nl)) \<and>
   consistent np (fst (run np (init np kern rs, g) cs)) =
     last_fit_returned np (init np kern rs, g) cs False \<and>
   (consistent np (fst (run np (init np kern rs, g) cs)) \<longrightarrow>
      is_fit (fst (run np (init np kern rs, g) cs)))"
proof (intro conjI impI)
  show "is_fit (fst (run np (init np kern rs, g) cs)) = some_fit_returned np (init np kern rs, g) cs"
    by (simp add: run_flag init_def)
next
  assume "is_fit (fst (run np st cs))"
  then show "is_fit (fst (run np st (cs @ ds)))"
    by (simp add: run_append run_flag[of np "run np st cs" ds])
next
  assume "no_failed_refit np (init np kern rs, g) cs"
    and "is_fit (fst (run np (init np kern rs, g) cs))"
  then show "consistent np (fst (run np (init np kern rs, g) cs))"
    using run_consistent[of "(init np kern rs, g)" np cs] init_invariant[of np kern rs] by simp
next
  show "consistent np (fst (fst (step np st (Fit x y nl)))) = snd (step np st (Fit x y nl))"
    by (rule step_fit_consistent)
next
  show "consistent np (fst (run np (init np kern rs, g) cs)) =
     last_fit_returned np (init np kern rs, g) cs False"
    using run_last_fit[of np "(init np kern rs, g)" cs] by (simp add: init_inconsistent)
next
  assume c: "consistent np (fst (run np (init np kern rs, g) cs))"
  have "last_fit_returned np st cs b \<Longrightarrow> b \<or> some_fit_returned np st cs" for st b
    by (induction cs arbitrary: st b) (auto split: if_splits)
  from this[of "(init np kern rs, g)" False] c
  show "is_fit (fst (run np (init np kern rs, g) cs))"
    using run_last_fit[of np "(init np kern rs, g)" cs] run_flag[of np "(init np kern rs, g)" cs]
    by (simp add: init_inconsistent)
qed

theorem C9_flag_and_cached_inverse_witness:
  "no_failed_refit toy_numpy (init toy_numpy linear_kernel None, 0)
     [Predict (A2 [[1], [3]]) False, Fit (A2 [[1], [2]]) (A2 [[3], [4]]) (A0 1),
      Fit (A2 [[1], [2]]) (A2 [[3], [4]]) (A1 [1, 2])] \<and>
   is_fit (fst (run toy_numpy (init toy_numpy linear_kernel None, 0)
     [Predict (A2 [[1], [3]]) False, Fit (A2 [[1], [2]]) (A2 [[3], [4]]) (A0 1),
      Fit (A2 [[1], [2]]) (A2 [[3], [4]]) (A1 [1, 2])])) \<and>
   consistent toy_numpy (fst (run toy_numpy (init toy_numpy linear_kernel None, 0)
     [Predict (A2 [[1], [3]]) False, Fit (A2 [[1], [2]]) (A2 [[3], [4]]) (A0 1),
      Fit (A2 [[1], [2]]) (A2 [[3], [4]]) (A1 [1, 2])])) \<and>
   \<not> no_failed_refit toy_numpy (init toy_numpy linear_kernel None, 0)
     [Fit (A2 [[1], [2]]) (A2 [[3], [4]]) (A0 1), Fit (A2 [[1], [1]]) (A2 [[3], [4]]) (A0 0),
      Fit (A2 [[1], [2]]) (A2 [[3], [4]]) (A1 [1, 2])] \<and>
   last_fit_returned toy_numpy (init toy_numpy linear_kernel None, 0)
     [Fit (A2 [[1], [2]]) (A2 [[3], [4]]) (A0 1), Fit (A2 [[1], [1]]) (A2 [[3], [4]]) (A0 0),
      Fit (A2 [[1], [2]]) (A2 [[3], [4]]) (A1 [1, 2])] False \<and>
   consistent toy_numpy (fst (run toy_numpy (init toy_numpy linear_kernel None, 0)
     [Fit (A2 [[1], [2]]) (A2 [[3], [4]]) (A0 1), Fit (A2 [[1], [1]]) (A2 [[3], [4]]) (A0 0),
      Fit (A2 [[1], [2]]) (A2 [[3], [4]]) (A1 [1, 2])])) \<and>
   is_fit (fst (run toy_numpy (init toy_numpy linear_kernel None, 0)
     [Fit (A2 [[1], [2]]) (A2 [[3], [4]]) (A0 1), Fit (A2 [[1], [1]]) (A2 [[3], [4]]) (A0 0),
      Fit (A2 [[1], [2]]) (A2 [[3], [4]]) (A1 [1, 2])]))"
proof -
  let ?ok = "[Predict (A2 [[1], [3]]) False, Fit (A2 [[1], [2]]) (A2 [[3], [4]]) (A0 1),
      Fit (A2 [[1], [2]]) (A2 [[3], [4]]) (A1 [1, (2 :: real)])]"
  let ?bad = "[Fit (A2 [[1], [2]]) (A2 [[3], [4]]) (A0 1), Fit (A2 [[1], [1]]) (A2 [[3], [4]]) (A0 0),
      Fit (A2 [[1], [2]]) (A2 [[3], [4]]) (A1 [1, (2 :: real)])]"
  have u: "init toy_numpy linear_kernel None = unfit0" by (simp add: unfit0_def)
  have f: "is_fit fitted0" by (simp add: fitted0_eq)
  have k1: "kernel fitted0 = linear_kernel" by (simp add: fitted0_eq)
  have k2: "kernel (fitted0\<lparr>train_x := Some [[1], [1]], train_y := Some [[3], [4]],
              noise_level := Some (A0 0), k := Some [[1, 1], [1, 1]]\<rparr>) = linear_kernel"
    by (simp add: fitted0_eq)
  note ev = predict_unfit0 fit_unfit0 fitted0_unfit0 refit_fitted0_singular
    fit_linear_vector_noise[OF k1] fit_linear_vector_noise[OF k2] returned_def
  have nf: "no_failed_refit toy_numpy (unfit0, 0) ?ok"
    by (simp add: ev)
  have sf: "some_fit_returned toy_numpy (unfit0, 0) ?ok"
    by (simp add: ev)
  have bad: "\<not> no_failed_refit toy_numpy (unfit0, 0) ?bad"
    by (simp add: ev f)
  have lf: "last_fit_returned toy_numpy (unfit0, 0) ?bad False"
    by (simp add: ev)
  note t1 = C9_flag_and_cached_inverse[where np = toy_numpy and kern = linear_kernel and rs = None
        and g = 0 and cs = ?ok and st = "(unfit0, 0)" and ds = "[]"
        and x = "A2 [[1], [2]]" and y = "A2 [[3], [4]]" and nl = "A0 1", unfolded u]
  note t2 = C9_flag_and_cached_inverse[where np = toy_numpy and kern = linear_kernel and rs = None
        and g = 0 and cs = ?bad and st = "(unfit0, 0)" and ds = "[]"
        and x = "A2 [[1], [2]]" and y = "A2 [[3], [4]]" and nl = "A0 1", unfolded u]
  show ?thesis
    unfolding u using t1 t2 nf sf bad lf by blast
qed

subsection \<open>The point estimate\<close>

lemma run_training:
  "list_all (\<lambda>c. \<not> is_Fit c) cs \<Longrightarrow> training_of (fst (run np st cs)) = training_of (fst st)"
  by (induction cs arbitrary: st) (simp_all add: step_not_fit_training)

lemma posterior_moments_cong:
  "training_of s' = training_of s \<Longrightarrow> snd (posterior_moments s' x) = snd (posterior_moments s x)"
  by (simp add: posterior_moments_def training_of_def Let_def)

lemma predict_state: "fst (predict np s x rs) = s"
  using posterior_moments_state[of s x]
  by (auto simp: predict_def split: prod.splits sum.splits)

lemma predict_outcome:
  "snd (predict np s x rs) =
     (case snd (posterior_moments s x) of
        Inl e \<Rightarrow> Inl e
      | Inr (m, c) \<Rightarrow> Inr (m, if rs then Some (map (np_sqrt np) (diag_of_mat c)) else None))"
  by (auto simp: predict_def posterior_moments_def split: prod.splits sum.splits)

text \<open>
  Claim C8. \<open>predict\<close> leaves the regressor as it was, so a second call with the same
  points gives the same outcome, also when calls other than \<open>fit\<close> come in between; the
  outcome is the posterior mean of \<open>posterior_moments\<close> (with the square roots of the
  diagonal of its covariance when asked for), and it does not depend on the sampler, on
  either generator or on the state of the regressor's random source.
\<close>

theorem C8_predict_deterministic:
  fixes np :: "('a::{zero,one,plus,minus,times}, 'r, 'g, 'e) numpy"
  shows
  "fst (predict np s x rs) = s \<and>
   predict np (fst (predict np s x rs)) x rs = predict np s x rs \<and>
   (list_all (\<lambda>c. \<not> is_Fit c) cs \<longrightarrow>
      snd (predict np (fst (run np (s, g) cs)) x rs) = snd (predict np s x rs)) \<and>
   snd (predict np s x rs) =
     (case snd (posterior_moments s x) of
        Inl e \<Rightarrow> Inl e
      | Inr (m, c) \<Rightarrow> Inr (m, if rs then Some (map (np_sqrt np) (diag_of_mat c)) else None)) \<and>
   snd (predict (np\<lparr>multivariate_normal := mvn, randn := rnd, seed0 := sd\<rparr>)
          (s\<lparr>random_state := r\<rparr>) x rs) = snd (predict np s x rs)"
proof -
  have a: "fst (predict np s x rs) = s"
    by (rule predict_state)
  have c: "snd (predict np (fst (run np (s, g) cs)) x rs) = snd (predict np s x rs)"
    if "list_all (\<lambda>c. \<not> is_Fit c) cs"
    using posterior_moments_cong[OF run_training[OF that, of np "(s, g)"], of x]
    by (simp add: predict_outcome)
  have "training_of (s\<lparr>random_state := r\<rparr>) = training_of s"
    by (simp add: training_of_def)
  from posterior_moments_cong[OF this, of x]
  have d: "snd (predict (np\<lparr>multivariate_normal := mvn, randn := rnd, seed0 := sd\<rparr>)
          (s\<lparr>random_state := r\<rparr>) x rs) = snd (predict np s x rs)"
    by (simp add: predict_outcome split: sum.splits prod.splits)
  show ?thesis using a c d predict_outcome[of np s x rs] by simp
qed

theorem C8_predict_deterministic_witness:
  "predict toy_numpy fitted0 (A2 [[1], [3]]) True =
     (fitted0, Inr ([[11 / 6], [11 / 2]], Some [sqrt (1 / 6), sqrt (3 / 2)])) \<and>
   predict toy_numpy (fst (predict toy_numpy fitted0 (A2 [[1], [3]]) True)) (A2 [[1], [3]]) True =
     (fitted0, Inr ([[11 / 6], [11 / 2]], Some [sqrt (1 / 6), sqrt (3 / 2)])) \<and>
   list_all (\<lambda>c. \<not> is_Fit c)
     [Sample_prior (A2 [[1], [3]]) 2 False, Sample_posterior (A2 [[1], [3]]) 2 True (1 :: real)] \<and>
   snd (predict toy_numpy
          (fst (run toy_numpy (fitted0, 7)
             [Sample_prior (A2 [[1], [3]]) 2 False, Sample_posterior (A2 [[1], [3]]) 2 True 1]))
          (A2 [[1], [3]]) True) =
     Inr ([[11 / 6], [11 / 2]], Some [sqrt (1 / 6), sqrt (3 / 2)])"
proof -
  let ?cs = "[Sample_prior (A2 [[1], [3]]) 2 False, Sample_posterior (A2 [[1], [3]]) 2 True (1 :: real)]"
  have pm: "posterior_moments fitted0 (A2 [[1], [3]]) =
     (fitted0, Inr ([[11 / 6], [11 / 2]], [[1 / 6, 1 / 2], [1 / 2, 3 / 2]]))"
    using posterior_moments_fitted0[of 0] by (simp add: fitted0_eq)
  have d: "diag_of_mat [[1 / 6, 1 / 2], [1 / 2, 3 / 2 :: real]] = [1 / 6, 3 / 2]"
    by (simp add: diag_of_mat_def nrows_def ncols_def upt_rec)
  have nf: "list_all (\<lambda>c. \<not> is_Fit c) ?cs" by simp
  note t = C8_predict_deterministic[where np = toy_numpy and s = fitted0 and x = "A2 [[1], [3]]"
      and rs = True and cs = ?cs and g = 7]
  have v: "snd (predict toy_numpy fitted0 (A2 [[1], [3]]) True) =
          Inr ([[11 / 6], [11 / 2]], Some [sqrt (1 / 6), sqrt (3 / 2)])"
    using t by (simp add: pm d toy_numpy_def)
  moreover have "fst (predict toy_numpy fitted0 (A2 [[1], [3]]) True) = fitted0"
    using t by simp
  ultimately have p: "predict toy_numpy fitted0 (A2 [[1], [3]]) True =
     (fitted0, Inr ([[11 / 6], [11 / 2]], Some [sqrt (1 / 6), sqrt (3 / 2)]))"
    by (metis prod.collapse)
  have "snd (predict toy_numpy (fst (run toy_numpy (fitted0, 7) ?cs)) (A2 [[1], [3]]) True) =
     Inr ([[11 / 6], [11 / 2]], Some [sqrt (1 / 6), sqrt (3 / 2)])"
    using t nf v by metis
  then show ?thesis using p nf by simp
qed

end
